theory Spec2Isabelle
  imports Main "HOL-Library.Word"
begin

unbundle bit_operations_syntax

section \<open>Primitive types\<close>

text \<open>
  The fixed-size byte arrays \<open>ethgo.Address\<close> (20 bytes) and \<open>ethgo.Hash\<close> (32 bytes)
  are compared with \<open>==\<close>, that is bytewise; they are modelled as byte lists, and so
  are byte slices (a nil slice and an empty slice are the same list).
  \<open>BlockNumber\<close> is Go's \<open>int64\<close> and \<open>argUint64\<close> its \<open>uint64\<close>: both are 64-bit
  words, \<open>sint\<close> reads the first, \<open>unat\<close> the second, and the conversions
  \<open>uint64(n)\<close> and \<open>BlockNumber(n)\<close> keep the bits. Strings are byte strings.
\<close>

type_synonym byte = "8 word"
type_synonym Address = "byte list"
type_synonym Hash = "byte list"
type_synonym uint64 = "64 word"
type_synonym BlockNumber = "64 word"

text \<open>
  Go errors as values: the errors of \<open>strconv\<close> and \<open>encoding/hex\<close>, an error built by
  \<open>fmt.Errorf\<close> (its format string and its arguments), an error handed over by the
  backend, and a run-time panic (nil dereference, index out of range).
\<close>

datatype fmtarg = ArgUint uint64 | ArgHash Hash | ArgStr string

datatype error =
    ErrSyntax
  | ErrRange
  | ErrLength
  | InvalidByteError char
  | Errorf string "fmtarg list"
  | BackendError string
  | Panic

section \<open>types.go: the value codec\<close>

text \<open>
  The functions of \<open>strings\<close>, \<open>encoding/hex\<close>, \<open>strconv\<close> and \<open>math/big\<close> that the
  codec calls, as far as it uses them: \<open>strings.HasPrefix\<close> and \<open>TrimPrefix\<close>,
  \<open>hex.DecodeString\<close> (both cases of the hex digits, the first bad byte or the odd length
  reported), \<open>hex.EncodeToString\<close>, \<open>strconv.AppendUint\<close> and \<open>big.Int.Text\<close> in base 16,
  \<open>strconv.ParseUint\<close> with bit size 64 (the accumulator is a \<open>uint64\<close>, its wrap-around
  written out), and \<open>big.Int.SetBytes\<close>.
\<close>

definition HasPrefix :: "string \<Rightarrow> string \<Rightarrow> bool" where
  "HasPrefix s p = (take (length p) s = p)"

definition TrimPrefix :: "string \<Rightarrow> string \<Rightarrow> string" where
  "TrimPrefix s p = (if HasPrefix s p then drop (length p) s else s)"

definition hextable :: string where
  "hextable = ''0123456789abcdef''"

definition fromHexChar :: "char \<Rightarrow> nat option" where
  "fromHexChar c =
     (let n = (of_char c :: nat)
      in if 48 \<le> n \<and> n \<le> 57 then Some (n - 48)
         else if 97 \<le> n \<and> n \<le> 102 then Some (n - 97 + 10)
         else if 65 \<le> n \<and> n \<le> 70 then Some (n - 65 + 10)
         else None)"

fun hex_DecodeString :: "string \<Rightarrow> error + byte list" where
  "hex_DecodeString [] = Inr []"
| "hex_DecodeString [p] =
     (case fromHexChar p of None \<Rightarrow> Inl (InvalidByteError p) | Some a \<Rightarrow> Inl ErrLength)"
| "hex_DecodeString (p # q # rest) =
     (case fromHexChar p of
        None \<Rightarrow> Inl (InvalidByteError p)
      | Some a \<Rightarrow>
          (case fromHexChar q of
             None \<Rightarrow> Inl (InvalidByteError q)
           | Some b \<Rightarrow>
               (case hex_DecodeString rest of
                  Inl e \<Rightarrow> Inl e
                | Inr bs \<Rightarrow> Inr ((push_bit 4 (of_nat a) OR of_nat b) # bs))))"

fun hex_EncodeToString :: "byte list \<Rightarrow> string" where
  "hex_EncodeToString [] = []"
| "hex_EncodeToString (v # rest) =
     hextable ! unat (drop_bit 4 v) # hextable ! unat (v AND 15) # hex_EncodeToString rest"

definition decodeToHex :: "string \<Rightarrow> error + byte list" where
  "decodeToHex b =
     (let str = TrimPrefix b ''0x'';
          str = (if length str mod 2 \<noteq> 0 then ''0'' @ str else str)
      in hex_DecodeString str)"

definition encodeToHex :: "byte list \<Rightarrow> string" where
  "encodeToHex b =
     (let str = hex_EncodeToString b;
          str = (if length str mod 2 \<noteq> 0 then ''0'' @ str else str)
      in ''0x'' @ str)"

function FormatUint16 :: "nat \<Rightarrow> string" where
  "FormatUint16 u =
     (if u \<ge> 16 then FormatUint16 (drop_bit 4 u) @ [hextable ! (u AND 15)] else [hextable ! u])"
  by pat_completeness auto
termination
  by (relation "measure id") (auto simp: drop_bit_eq_div)

declare FormatUint16.simps [simp del]

definition digit_of :: "char \<Rightarrow> nat option" where
  "digit_of c =
     (let n = (of_char c :: nat); l = n OR 32
      in if 48 \<le> n \<and> n \<le> 57 then Some (n - 48)
         else if 97 \<le> l \<and> l \<le> 122 then Some (l - 97 + 10)
         else None)"

definition maxUint64 :: nat where
  "maxUint64 = 2 ^ 64 - 1"

definition ParseUint_step :: "char \<Rightarrow> nat \<Rightarrow> nat \<Rightarrow> error + nat" where
  "ParseUint_step c base n =
     (case digit_of c of
        None \<Rightarrow> Inl ErrSyntax
      | Some d \<Rightarrow>
          if d \<ge> base then Inl ErrSyntax
          else if n \<ge> maxUint64 div base + 1 then Inl ErrRange
          else (let n' = (n * base) mod 2 ^ 64;
                    n1 = (n' + d) mod 2 ^ 64
                in if n1 < n' \<or> n1 > maxUint64 then Inl ErrRange else Inr n1))"

fun ParseUint_loop :: "string \<Rightarrow> nat \<Rightarrow> nat \<Rightarrow> error + nat" where
  "ParseUint_loop [] base n = Inr n"
| "ParseUint_loop (c # cs) base n =
     (case ParseUint_step c base n of
        Inl e \<Rightarrow> Inl e
      | Inr n1 \<Rightarrow> ParseUint_loop cs base n1)"

definition ParseUint :: "string \<Rightarrow> nat \<Rightarrow> error + uint64" where
  "ParseUint s base =
     (if s = [] then Inl ErrSyntax
      else case ParseUint_loop s base 0 of Inl e \<Rightarrow> Inl e | Inr n \<Rightarrow> Inr (of_nat n))"

text \<open>
  The three scalar types. An \<open>UnmarshalText\<close> method writes through its pointer
  receiver: the model takes the value the receiver points to and returns the error
  (\<open>None\<close> is \<open>nil\<close>) together with the value afterwards.
\<close>

definition argUint64_MarshalText :: "uint64 \<Rightarrow> string" where
  "argUint64_MarshalText b = ''0x'' @ FormatUint16 (unat b)"

definition argUint64_UnmarshalText :: "uint64 \<Rightarrow> string \<Rightarrow> error option \<times> uint64" where
  "argUint64_UnmarshalText u input =
     (let str = TrimPrefix input ''0x''
      in case ParseUint str 16 of
           Inl err \<Rightarrow> (Some err, u)
         | Inr num \<Rightarrow> (None, num))"

fun SetBytes_loop :: "byte list \<Rightarrow> nat \<Rightarrow> nat" where
  "SetBytes_loop [] z = z"
| "SetBytes_loop (b # buf) z = SetBytes_loop buf (z * 256 + unat b)"

definition SetBytes :: "byte list \<Rightarrow> int" where
  "SetBytes buf = int (SetBytes_loop buf 0)"

definition big_Text16 :: "int \<Rightarrow> string" where
  "big_Text16 x = (if x < 0 then ''-'' else []) @ FormatUint16 (nat \<bar>x\<bar>)"

definition argBig_UnmarshalText :: "int \<Rightarrow> string \<Rightarrow> error option \<times> int" where
  "argBig_UnmarshalText a input =
     (case decodeToHex input of
        Inl err \<Rightarrow> (Some err, a)
      | Inr buf \<Rightarrow> (None, SetBytes buf))"

definition argBig_MarshalText :: "int \<Rightarrow> string" where
  "argBig_MarshalText a = ''0x'' @ big_Text16 a"

definition argBytes_MarshalText :: "byte list \<Rightarrow> string" where
  "argBytes_MarshalText b = encodeToHex b"

definition argBytes_UnmarshalText :: "byte list \<Rightarrow> string \<Rightarrow> error option \<times> byte list" where
  "argBytes_UnmarshalText b input =
     (case decodeToHex input of
        Inl err \<Rightarrow> (None, b)
      | Inr hh \<Rightarrow> (None, hh))"

section \<open>query.go: the log filter\<close>

record Log =
  log_Address :: Address
  log_Topics :: "Hash list"

record LogFilter =
  BlockHash :: "Hash option"
  fromBlock :: BlockNumber
  toBlock :: BlockNumber
  Addresses :: "Address list"
  Topics :: "Hash list list"

text \<open>
  The address loop of \<open>Match\<close>: \<open>match\<close> starts as false and is set by every equal
  element; the loop has no \<open>break\<close>.
\<close>

fun addr_loop :: "Address list \<Rightarrow> Address \<Rightarrow> bool \<Rightarrow> bool" where
  "addr_loop [] a m = m"
| "addr_loop (addr # rest) a m = addr_loop rest a (if addr = a then True else m)"

text \<open>
  The inner topic loop reads \<open>log.Topics[i]\<close> once for every element of the slot; an
  index out of range is a Go panic, the value \<open>None\<close> here. The loop stops at the first
  equal element (\<open>break\<close>).
\<close>

fun sub_loop :: "Hash list \<Rightarrow> Hash list \<Rightarrow> nat \<Rightarrow> bool \<Rightarrow> bool option" where
  "sub_loop [] lt i m = Some m"
| "sub_loop (topic # rest) lt i m =
     (if i < length lt
      then (if lt ! i = topic then Some True else sub_loop rest lt i m)
      else None)"

fun topics_loop :: "Hash list list \<Rightarrow> nat \<Rightarrow> Hash list \<Rightarrow> bool option" where
  "topics_loop [] i lt = Some True"
| "topics_loop (sub # rest) i lt =
     (case sub_loop sub lt i (length sub = 0) of
        None \<Rightarrow> None
      | Some match \<Rightarrow> if \<not> match then Some False else topics_loop rest (Suc i) lt)"

definition Match :: "LogFilter \<Rightarrow> Log \<Rightarrow> bool option" where
  "Match l log =
     (if length (Addresses l) > 0 \<and> \<not> addr_loop (Addresses l) (log_Address log) False
      then Some False
      else if length (Topics l) > length (log_Topics log)
      then Some False
      else topics_loop (Topics l) 0 (log_Topics log))"

text \<open>The block tags and the parsing of a block number.\<close>

definition PendingBlockNumber :: BlockNumber where "PendingBlockNumber = - 3"
definition LatestBlockNumber :: BlockNumber where "LatestBlockNumber = - 2"
definition EarliestBlockNumber :: BlockNumber where "EarliestBlockNumber = - 1"

definition parseUint64orHex :: "string option \<Rightarrow> error + uint64" where
  "parseUint64orHex val =
     (case val of
        None \<Rightarrow> Inr 0
      | Some str \<Rightarrow>
          if HasPrefix str ''0x'' then ParseUint (drop 2 str) 16 else ParseUint str 10)"

definition Trim_quote :: "string \<Rightarrow> string" where
  "Trim_quote s =
     rev (dropWhile (\<lambda>c. c = CHR 0x22) (rev (dropWhile (\<lambda>c. c = CHR 0x22) s)))"

definition stringToBlockNumber :: "string \<Rightarrow> error + BlockNumber" where
  "stringToBlockNumber str0 =
     (if str0 = [] then Inl (Errorf ''value is empty'' [])
      else let str = Trim_quote str0
           in if str = ''pending'' then Inr PendingBlockNumber
              else if str = ''latest'' then Inr LatestBlockNumber
              else if str = ''earliest'' then Inr EarliestBlockNumber
              else case parseUint64orHex (Some str) of
                     Inl err \<Rightarrow> Inl err
                   | Inr n \<Rightarrow> Inr n)"

definition BlockNumber_UnmarshalJSON :: "BlockNumber \<Rightarrow> string \<Rightarrow> error option \<times> BlockNumber" where
  "BlockNumber_UnmarshalJSON b buffer =
     (case stringToBlockNumber buffer of
        Inl err \<Rightarrow> (Some err, b)
      | Inr num \<Rightarrow> (None, num))"

text \<open>A JSON string literal as it stands in a request: the text between double quotes.\<close>

definition quoted :: "string \<Rightarrow> string" where
  "quoted s = CHR 0x22 # s @ [CHR 0x22]"

section \<open>blockchain.go: the data the backend hands over\<close>

record Block =
  blk_Number :: uint64
  blk_Hash :: Hash
  blk_StateRoot :: Hash

record Receipt =
  rcpt_Logs :: "Log list"

record Account =
  acc_Nonce :: uint64
  acc_Balance :: "int option"
  acc_Root :: Hash
  acc_CodeHash :: "byte list"

record GetLogsInput =
  in_From :: uint64
  in_To :: uint64
  in_Addresses :: "Address list"
  in_Topics :: "Hash list list"

record Transaction =
  txn_From :: Address
  txn_To :: "Address option"
  txn_Gas :: uint64
  txn_Value :: int
  txn_Input :: "byte list"
  txn_Nonce :: uint64
  txn_Hash :: Hash

record txnArgs =
  From :: "Address option"
  To :: "Address option"
  Gas :: "uint64 option"
  GasPrice :: "byte list option"
  Value :: "byte list option"
  Input :: "byte list option"
  Data :: "byte list option"
  Nonce :: "uint64 option"

text \<open>
  The backend, as \<open>eth_endpoint.go\<close> calls it: one field for each method, with the
  arguments and results of the calls in that file. A pointer result that may be nil is an
  option; a result \<open>(value, error)\<close> of which the caller reads the value only when the
  error is nil is a sum; where the caller tests both components it is a pair. The last
  two fields are \<open>Transaction.GetHash\<close> and \<open>BytesToHash\<close> of the ethgo library.
\<close>

record EthBackend =
  b_Header :: "Block option"
  b_GetReceiptsByHash :: "Hash \<Rightarrow> error + Receipt list"
  b_GetHeaderByNumber :: "uint64 \<Rightarrow> Block option \<times> bool"
  b_GetNonce :: "Address \<Rightarrow> uint64 \<times> bool"
  b_GetAccount :: "Hash \<Rightarrow> Address \<Rightarrow> Account option \<times> error option"
  b_GetStorage :: "Hash \<Rightarrow> Address \<Rightarrow> Hash \<Rightarrow> error + byte list"
  b_GetCode :: "Hash \<Rightarrow> error + byte list"
  b_GetAvgGasPrice :: "int option"
  b_GetLogs :: "GetLogsInput \<Rightarrow> error + Log list"
  b_Call :: "Transaction \<Rightarrow> Block option \<Rightarrow> error + byte list"
  b_EstimateGas :: "Transaction \<Rightarrow> Block option \<Rightarrow> error + uint64"
  txn_GetHash :: "Transaction \<Rightarrow> error + Hash"
  ethgo_BytesToHash :: "byte list \<Rightarrow> Hash"

section \<open>eth_endpoint.go\<close>

text \<open>
  An endpoint returns \<open>(result, error)\<close>: \<open>Inl\<close> is the error. Dereferencing a nil header
  or account is a panic, the error value \<open>Panic\<close>.
\<close>

definition getBlockHeaderImpl :: "EthBackend \<Rightarrow> BlockNumber \<Rightarrow> error + Block option" where
  "getBlockHeaderImpl b number =
     (if number = LatestBlockNumber then Inr (b_Header b)
      else if number = EarliestBlockNumber
      then Inl (Errorf ''fetching the earliest header is not supported'' [])
      else if number = PendingBlockNumber
      then Inl (Errorf ''fetching the pending header is not supported'' [])
      else (case b_GetHeaderByNumber b number of
              (header, ok) \<Rightarrow>
                if \<not> ok
                then Inl (Errorf ''Error fetching block number %d header'' [ArgUint number])
                else Inr header))"

definition GetBlockByNumber :: "EthBackend \<Rightarrow> BlockNumber \<Rightarrow> bool \<Rightarrow> error + Block option" where
  "GetBlockByNumber b number full =
     (case getBlockHeaderImpl b number of
        Inl err \<Rightarrow> Inl err
      | Inr header \<Rightarrow> Inr header)"

definition GetStorageAt :: "EthBackend \<Rightarrow> Address \<Rightarrow> Hash \<Rightarrow> BlockNumber \<Rightarrow> error + byte list" where
  "GetStorageAt b address index number =
     (case getBlockHeaderImpl b number of
        Inl err \<Rightarrow> Inl err
      | Inr header \<Rightarrow>
          (case header of
             None \<Rightarrow> Inl Panic
           | Some h \<Rightarrow>
               (case b_GetStorage b (blk_StateRoot h) address index of
                  Inl err \<Rightarrow> Inl err
                | Inr result \<Rightarrow> Inr result)))"

definition GetBalance :: "EthBackend \<Rightarrow> Address \<Rightarrow> BlockNumber \<Rightarrow> error + int option" where
  "GetBalance b address number =
     (case getBlockHeaderImpl b number of
        Inl err \<Rightarrow> Inl err
      | Inr header \<Rightarrow>
          (case header of
             None \<Rightarrow> Inl Panic
           | Some h \<Rightarrow>
               (case b_GetAccount b (blk_StateRoot h) address of
                  (acc, err) \<Rightarrow>
                    (case err of
                       Some e \<Rightarrow> Inl e
                     | None \<Rightarrow>
                         (case acc of
                            None \<Rightarrow> Inr None
                          | Some a \<Rightarrow>
                              (case acc_Balance a of
                                 None \<Rightarrow> Inl Panic
                               | Some balance \<Rightarrow> Inr (Some balance)))))))"

definition GetCode :: "EthBackend \<Rightarrow> Address \<Rightarrow> BlockNumber \<Rightarrow> error + byte list" where
  "GetCode b address number =
     (case getBlockHeaderImpl b number of
        Inl err \<Rightarrow> Inl err
      | Inr header \<Rightarrow>
          (case header of
             None \<Rightarrow> Inl Panic
           | Some h \<Rightarrow>
               (case b_GetAccount b (blk_StateRoot h) address of
                  (acc, err) \<Rightarrow>
                    (case err of
                       Some e \<Rightarrow> Inl e
                     | None \<Rightarrow>
                         (case acc of
                            None \<Rightarrow> Inr []
                          | Some a \<Rightarrow> b_GetCode b (ethgo_BytesToHash b (acc_CodeHash a)))))))"

definition getNextNonce :: "EthBackend \<Rightarrow> Address \<Rightarrow> BlockNumber \<Rightarrow> error + uint64" where
  "getNextNonce b address number =
     (if number = PendingBlockNumber \<and> snd (b_GetNonce b address)
      then Inr (fst (b_GetNonce b address))
      else
        let number = (if number = PendingBlockNumber then LatestBlockNumber else number)
        in case getBlockHeaderImpl b number of
             Inl err \<Rightarrow> Inl err
           | Inr header \<Rightarrow>
               (case header of
                  None \<Rightarrow> Inl Panic
                | Some h \<Rightarrow>
                    (case b_GetAccount b (blk_StateRoot h) address of
                       (acc, err) \<Rightarrow>
                         (case err of
                            Some e \<Rightarrow> Inl e
                          | None \<Rightarrow>
                              (case acc of
                                 None \<Rightarrow> Inl Panic
                               | Some a \<Rightarrow> Inr (acc_Nonce a))))))"

definition GetTransactionCount :: "EthBackend \<Rightarrow> Address \<Rightarrow> BlockNumber \<Rightarrow> error + uint64" where
  "GetTransactionCount b address number =
     (case getNextNonce b address number of
        Inl err \<Rightarrow> Inl err
      | Inr nonce \<Rightarrow> Inr nonce)"

text \<open>\<open>big.Int.Bytes\<close>: the absolute value, big-endian, without leading zeros.\<close>

function big_Bytes_nat :: "nat \<Rightarrow> byte list" where
  "big_Bytes_nat n = (if n = 0 then [] else big_Bytes_nat (n div 256) @ [of_nat (n mod 256)])"
  by pat_completeness auto
termination
  by (relation "measure id") auto

declare big_Bytes_nat.simps [simp del]

definition big_Bytes :: "int \<Rightarrow> byte list" where
  "big_Bytes x = big_Bytes_nat (nat \<bar>x\<bar>)"

text \<open>
  \<open>decodeTxn\<close> mutates the record its argument points to; the model returns the record
  as it is when the function returns, also when it returns an error. The function is
  a sequence of statements that each fill one absent field; each statement is one
  definition here, in the order of the source.
\<close>

definition decodeTxn_setNonce :: "EthBackend \<Rightarrow> Address \<Rightarrow> txnArgs \<Rightarrow> error + txnArgs" where
  "decodeTxn_setNonce b sender arg =
     (if Nonce arg = None
      then (case getNextNonce b sender LatestBlockNumber of
              Inl err \<Rightarrow> Inl err
            | Inr nonce \<Rightarrow> Inr (arg\<lparr>Nonce := Some nonce\<rparr>))
      else Inr arg)"

definition decodeTxn_setValue :: "txnArgs \<Rightarrow> txnArgs" where
  "decodeTxn_setValue arg = (if Value arg = None then arg\<lparr>Value := Some []\<rparr> else arg)"

definition decodeTxn_setGasPrice :: "EthBackend \<Rightarrow> txnArgs \<Rightarrow> error + txnArgs" where
  "decodeTxn_setGasPrice b arg =
     (if GasPrice arg = None
      then (case b_GetAvgGasPrice b of
              None \<Rightarrow> Inl Panic
            | Some avg \<Rightarrow> Inr (arg\<lparr>GasPrice := Some (big_Bytes avg)\<rparr>))
      else Inr arg)"

text \<open>The local \<open>input\<close>: \<open>None\<close> is the nil slice that neither field has replaced.\<close>

definition decodeTxn_input :: "txnArgs \<Rightarrow> byte list option" where
  "decodeTxn_input arg =
     (if Data arg \<noteq> None then Data arg
      else if Input arg \<noteq> None then Input arg
      else None)"

definition decodeTxn_setGas :: "txnArgs \<Rightarrow> txnArgs" where
  "decodeTxn_setGas arg = (if Gas arg = None then arg\<lparr>Gas := Some 1000000\<rparr> else arg)"

text \<open>
  The transaction literal dereferences \<open>arg.Gas\<close>, \<open>arg.Value\<close> and \<open>arg.Nonce\<close>; a nil
  pointer there would be a panic.
\<close>

definition decodeTxn_build ::
  "EthBackend \<Rightarrow> Address \<Rightarrow> txnArgs \<Rightarrow> byte list \<Rightarrow> (error + Transaction) \<times> txnArgs" where
  "decodeTxn_build b sender arg input =
     (case Gas arg of
        None \<Rightarrow> (Inl Panic, arg)
      | Some gas \<Rightarrow>
          (case Value arg of
             None \<Rightarrow> (Inl Panic, arg)
           | Some val \<Rightarrow>
               (case Nonce arg of
                  None \<Rightarrow> (Inl Panic, arg)
                | Some nonce \<Rightarrow>
                    (let txn = \<lparr>txn_From = sender, txn_To = To arg, txn_Gas = gas,
                                txn_Value = SetBytes val, txn_Input = input,
                                txn_Nonce = nonce, txn_Hash = replicate 32 0\<rparr>
                     in case txn_GetHash b txn of
                          Inl err \<Rightarrow> (Inl err, arg)
                        | Inr hash \<Rightarrow> (Inr (txn\<lparr>txn_Hash := hash\<rparr>), arg)))))"

definition decodeTxn :: "EthBackend \<Rightarrow> txnArgs \<Rightarrow> (error + Transaction) \<times> txnArgs" where
  "decodeTxn b arg =
     (case From arg of
        None \<Rightarrow> (Inl (Errorf ''from is empty'' []), arg)
      | Some sender \<Rightarrow>
          if Data arg \<noteq> None \<and> Input arg \<noteq> None
          then (Inl (Errorf ''both input and data cannot be set'' []), arg)
          else
            (case decodeTxn_setNonce b sender arg of
               Inl err \<Rightarrow> (Inl err, arg)
             | Inr arg1 \<Rightarrow>
                 (case decodeTxn_setGasPrice b (decodeTxn_setValue arg1) of
                    Inl err \<Rightarrow> (Inl err, decodeTxn_setValue arg1)
                  | Inr arg3 \<Rightarrow>
                      if To arg3 = None \<and> decodeTxn_input arg3 = None
                      then (Inl (Errorf ''contract creation without data provided'' []), arg3)
                      else decodeTxn_build b sender (decodeTxn_setGas arg3)
                             (case decodeTxn_input arg3 of None \<Rightarrow> [] | Some i \<Rightarrow> i))))"

definition Call :: "EthBackend \<Rightarrow> txnArgs \<Rightarrow> BlockNumber \<Rightarrow> (error + byte list) \<times> txnArgs" where
  "Call b arg number =
     (case decodeTxn b arg of
        (Inl err, arg) \<Rightarrow> (Inl err, arg)
      | (Inr transaction, arg) \<Rightarrow>
          (case getBlockHeaderImpl b number of
             Inl err \<Rightarrow> (Inl err, arg)
           | Inr header \<Rightarrow>
               (case b_Call b transaction header of
                  Inl err \<Rightarrow> (Inl err, arg)
                | Inr retValue \<Rightarrow> (Inr retValue, arg))))"

definition EstimateGas :: "EthBackend \<Rightarrow> txnArgs \<Rightarrow> BlockNumber option \<Rightarrow> (error + uint64) \<times> txnArgs" where
  "EstimateGas b arg rawNum =
     (case decodeTxn b arg of
        (Inl err, arg) \<Rightarrow> (Inl err, arg)
      | (Inr transaction, arg) \<Rightarrow>
          (case b_EstimateGas b transaction None of
             Inl err \<Rightarrow> (Inl err, arg)
           | Inr gas \<Rightarrow> (Inr gas, arg)))"

text \<open>
  The two nested loops of \<open>GetLogs\<close> over the receipts of a block and the logs of a
  receipt, appending to \<open>result\<close>; then the closure \<open>resolveNum\<close>, which reads
  \<open>head.Number\<close> only for a tag.
\<close>

fun logs_loop :: "LogFilter \<Rightarrow> Log list \<Rightarrow> Log list \<Rightarrow> error + Log list" where
  "logs_loop filterOptions [] result = Inr result"
| "logs_loop filterOptions (log # rest) result =
     (case Match filterOptions log of
        None \<Rightarrow> Inl Panic
      | Some m \<Rightarrow> logs_loop filterOptions rest (if m then result @ [log] else result))"

fun receipts_loop :: "LogFilter \<Rightarrow> Receipt list \<Rightarrow> Log list \<Rightarrow> error + Log list" where
  "receipts_loop filterOptions [] result = Inr result"
| "receipts_loop filterOptions (receipt # rest) result =
     (case logs_loop filterOptions (rcpt_Logs receipt) result of
        Inl err \<Rightarrow> Inl err
      | Inr result \<Rightarrow> receipts_loop filterOptions rest result)"

definition resolveNum :: "Block option \<Rightarrow> BlockNumber \<Rightarrow> error + uint64" where
  "resolveNum head num =
     (let num = (if num = PendingBlockNumber \<or> num = EarliestBlockNumber
                 then LatestBlockNumber else num)
      in if num = LatestBlockNumber
         then (case head of None \<Rightarrow> Inl Panic | Some h \<Rightarrow> Inr (blk_Number h))
         else Inr num)"

definition GetLogs :: "EthBackend \<Rightarrow> LogFilter \<Rightarrow> error + Log list" where
  "GetLogs b filterOptions =
     (let head = b_Header b
      in case BlockHash filterOptions of
           Some hash \<Rightarrow>
             (case b_GetReceiptsByHash b hash of
                Inl err \<Rightarrow> Inl err
              | Inr receipts \<Rightarrow> receipts_loop filterOptions receipts [])
         | None \<Rightarrow>
             (case resolveNum head (fromBlock filterOptions) of
                Inl err \<Rightarrow> Inl err
              | Inr from \<Rightarrow>
                  (case resolveNum head (toBlock filterOptions) of
                     Inl err \<Rightarrow> Inl err
                   | Inr to \<Rightarrow>
                       if to < from then Inl (Errorf ''incorrect range'' [])
                       else
                         (case b_GetLogs b \<lparr>in_From = from, in_To = to,
                                            in_Addresses = Addresses filterOptions,
                                            in_Topics = Topics filterOptions\<rparr> of
                            Inl err \<Rightarrow> Inl err
                          | Inr logs \<Rightarrow> Inr logs))))"

section \<open>The dispatcher\<close>

text \<open>
  Modelled from the spec: the declarations of \<open>Request\<close>, \<open>Response\<close> and \<open>ErrorObject\<close> are
  not among the sources. The spec gives the request envelope \<open>{jsonrpc, method, id, params}\<close>
  with \<open>params\<close> a JSON array, the response envelope \<open>{jsonrpc, id, result}\<close>, and error
  objects with a code and a message; the dispatcher reads and writes the fields
  \<open>ID\<close>, \<open>Method\<close>, \<open>Params\<close>, \<open>JSONRPC\<close>, \<open>Result\<close>, \<open>Code\<close> and \<open>Message\<close>. The raw
  \<open>Params\<close> are kept as the JSON value they denote, \<open>None\<close> when they are absent or are
  not JSON.
\<close>

datatype json =
    JNull
  | JBool bool
  | JNumber string
  | JString string
  | JArray "json list"
  | JObject "(string \<times> json) list"

record ErrorObject =
  Code :: int
  Message :: string

record Request =
  req_ID :: string
  req_Method :: string
  req_Params :: "json option"

record Response =
  resp_ID :: string
  resp_JSONRPC :: string
  resp_Result :: string

definition invalidJSONRequest :: ErrorObject where
  "invalidJSONRequest = \<lparr>Code = - 32600, Message = ''invalid json request''\<rparr>"

definition internalError :: ErrorObject where
  "internalError = \<lparr>Code = - 32603, Message = ''internal error''\<rparr>"

definition invalidMethod :: "string \<Rightarrow> ErrorObject" where
  "invalidMethod method =
     \<lparr>Code = - 32601, Message = ''The method '' @ method @ '' does not exist/is not available''\<rparr>"

definition invalidArguments :: "string \<Rightarrow> ErrorObject" where
  "invalidArguments method = \<lparr>Code = - 32602, Message = ''invalid arguments to '' @ method\<rparr>"

text \<open>
  What \<open>handleReq\<close> needs of a \<open>reflect.Type\<close>: the zero value that \<open>reflect.New\<close>
  allocates, and how \<open>encoding/json\<close> decodes one JSON value into a
  fresh value of the type (\<open>None\<close> is a decode error). Values of all Go types are one
  type \<open>'v\<close>, errors are \<open>'e\<close>. A handler \<open>fv\<close> maps its arguments, the receiver first,
  to its two results. The logger is the list of the lines printed so far.
\<close>

record 'v rtype =
  zero :: 'v
  decode :: "json \<Rightarrow> 'v option"

record ('v, 'e) funcData =
  inNum :: nat
  reqt :: "'v rtype list"
  fv :: "'v list \<Rightarrow> 'v option \<times> 'e option"
  isDyn :: bool

record ('v, 'e) serviceData =
  sv :: 'v
  funcMap :: "string \<rightharpoonup> ('v, 'e) funcData"

datatype 'e logline =
    LogRequest string string
  | LogDispatchError string 'e

record ('v, 'e) Dispatcher =
  serviceMap :: "string \<rightharpoonup> ('v, 'e) serviceData"
  json_Marshal :: "'v \<Rightarrow> 'e + string"
  json_MarshalResponse :: "Response \<Rightarrow> 'e + string"

text \<open>\<open>strings.SplitN(s, "_", 2)\<close>: split at the first underscore, if there is one.\<close>

definition SplitN2 :: "string \<Rightarrow> string list" where
  "SplitN2 s =
     (if CHR ''_'' \<in> set s
      then [takeWhile (\<lambda>c. c \<noteq> CHR ''_'') s, tl (dropWhile (\<lambda>c. c \<noteq> CHR ''_'') s)]
      else [s])"

definition getFnHandler ::
  "('v, 'e) Dispatcher \<Rightarrow> Request \<Rightarrow> ErrorObject + ('v, 'e) serviceData \<times> ('v, 'e) funcData" where
  "getFnHandler d req =
     (case SplitN2 (req_Method req) of
        [serviceName, funcName] \<Rightarrow>
          (case serviceMap d serviceName of
             None \<Rightarrow> Inl (invalidMethod (req_Method req))
           | Some service \<Rightarrow>
               (case funcMap service funcName of
                  None \<Rightarrow> Inl (invalidMethod (req_Method req))
                | Some fd \<Rightarrow> Inr (service, fd)))
      | _ \<Rightarrow> Inl (invalidMethod (req_Method req)))"

text \<open>
  \<open>json.Unmarshal(req.Params, &inputs)\<close>, where \<open>inputs\<close> is a slice holding one pointer to
  a fresh value for each parameter. \<open>encoding/json\<close> decodes a JSON array into a slice
  element by element: into the pointer at the same position while there is one, into a
  new \<open>interface{}\<close> element (which takes any JSON value) beyond the length of the slice,
  and it cuts the slice to the number of array elements, leaving the values of the
  remaining parameters as allocated. The JSON \<open>null\<close> leaves all of them as allocated;
  any other JSON value is a type error. This is what the repository's dispatcher test
  relies on when it calls the two-parameter method \<open>BlockPtr\<close> with \<open>["a"]\<close>.
\<close>

fun decode_inputs :: "'v rtype list \<Rightarrow> json list \<Rightarrow> 'v list option" where
  "decode_inputs [] elems = Some []"
| "decode_inputs (t # ts) [] = Some (zero t # map zero ts)"
| "decode_inputs (t # ts) (x # xs) =
     (case decode t x of
        None \<Rightarrow> None
      | Some v \<Rightarrow>
          (case decode_inputs ts xs of
             None \<Rightarrow> None
           | Some vs \<Rightarrow> Some (v # vs)))"

definition json_Unmarshal_inputs :: "'v rtype list \<Rightarrow> json option \<Rightarrow> 'v list option" where
  "json_Unmarshal_inputs typs params =
     (case params of
        None \<Rightarrow> None
      | Some JNull \<Rightarrow> Some (map zero typs)
      | Some (JArray elems) \<Rightarrow> decode_inputs typs elems
      | Some _ \<Rightarrow> None)"

text \<open>
  \<open>handleReq\<close> returns the response bytes or the error object, and the logger
  afterwards. \<open>Register\<close> stores \<open>inNum = len(reqt)\<close>, at least 1 for the receiver. With
  any other \<open>funcData\<close> there is a panic, the result \<open>None\<close>: in \<open>inArgs[0]\<close>, in
  \<open>fd.reqt[1:]\<close> or in \<open>inArgs[i+1]\<close> before the parameters are decoded, or in the
  reflective call, which finds a zero \<open>reflect.Value\<close> among its arguments, after.
\<close>

definition handleReq ::
  "('v, 'e) Dispatcher \<Rightarrow> Request \<Rightarrow> 'e logline list
     \<Rightarrow> (ErrorObject + string) option \<times> 'e logline list" where
  "handleReq d req logger =
     (let logger = logger @ [LogRequest (req_Method req) (req_ID req)]
      in case getFnHandler d req of
           Inl err \<Rightarrow> (Some (Inl err), logger)
         | Inr (service, fd) \<Rightarrow>
             if inNum fd = 0 \<or> reqt fd = [] \<or> inNum fd < length (reqt fd) then (None, logger)
             else
               (let typs = tl (reqt fd)
                in case json_Unmarshal_inputs typs (req_Params req) of
                     None \<Rightarrow> (Some (Inl (invalidArguments (req_Method req))), logger)
                   | Some inputs \<Rightarrow>
                       if inNum fd \<noteq> length (reqt fd) then (None, logger)
                       else
                       (case fv fd (sv service # inputs) of
                          (res, Some err) \<Rightarrow>
                            (Some (Inl internalError),
                             logger @ [LogDispatchError (req_Method req) err])
                        | (res, None) \<Rightarrow>
                            (case (case res of None \<Rightarrow> Inr [] | Some r \<Rightarrow> json_Marshal d r) of
                               Inl err \<Rightarrow>
                                 (Some (Inl internalError),
                                  logger @ [LogDispatchError (req_Method req) err])
                             | Inr data \<Rightarrow>
                                 (case json_MarshalResponse d
                                         \<lparr>resp_ID = req_ID req, resp_JSONRPC = ''2.0'',
                                          resp_Result = data\<rparr> of
                                    Inl err \<Rightarrow>
                                      (Some (Inl internalError),
                                       logger @ [LogDispatchError (req_Method req) err])
                                  | Inr respBytes \<Rightarrow> (Some (Inr respBytes), logger))))))"

definition Handle ::
  "('v, 'e) Dispatcher \<Rightarrow> Request option \<Rightarrow> 'e logline list
     \<Rightarrow> (ErrorObject + string) option \<times> 'e logline list" where
  "Handle d reqBody logger =
     (case reqBody of
        None \<Rightarrow> (Some (Inl invalidJSONRequest), logger)
      | Some req \<Rightarrow> handleReq d req logger)"

section \<open>The filter manager\<close>

text \<open>
  Modelled from the spec: \<open>filter_manager.go\<close> (the \<open>FilterManager\<close>, its filters and
  \<open>GetFilterChanges\<close>) is not among the sources; only its test is. The spec: a filter is a
  log filter or a block filter (or a pending-transaction filter), it has an arrival
  timestamp and either, in polling mode, a buffer of accumulated items or, in subscription
  mode, a reference to a WebSocket writer; the manager maps identifiers to filters and has
  an idle timeout. \<open>NewLogFilter(filter, ws)\<close> and \<open>NewBlockFilter(ws)\<close> install a polling
  filter if \<open>ws\<close> is nil and a subscription filter otherwise. \<open>GetFilterChanges(id)\<close> is
  polling-mode only; unknown, expired and subscription-mode identifiers return
  "filter does not exist"; it returns the accumulated batch, resets the buffer and
  refreshes the last-access stamp. A filter with \<open>now - last_access > timeout\<close> must not
  be returned to callers. The identifier of a new filter (an opaque string) and the
  current time are parameters.
\<close>

datatype filterItem = LogItem Log bool | HashItem Hash

datatype filterMode = Polling "filterItem list" | Subscription nat

datatype filterKind = LogKind LogFilter | BlockKind | PendingTxKind

record Filter =
  flt_kind :: filterKind
  flt_mode :: filterMode
  flt_timestamp :: nat

record FilterManager =
  filters :: "string \<rightharpoonup> Filter"
  timeout :: nat

definition errFilterDoesNotExists :: error where
  "errFilterDoesNotExists = Errorf ''filter does not exist'' []"

definition addFilter ::
  "FilterManager \<Rightarrow> filterKind \<Rightarrow> nat option \<Rightarrow> string \<Rightarrow> nat \<Rightarrow> string \<times> FilterManager" where
  "addFilter m kind ws fid now =
     (fid, m\<lparr>filters := (filters m)
              (fid \<mapsto> \<lparr>flt_kind = kind,
                       flt_mode = (case ws of None \<Rightarrow> Polling [] | Some w \<Rightarrow> Subscription w),
                       flt_timestamp = now\<rparr>)\<rparr>)"

definition NewLogFilter ::
  "FilterManager \<Rightarrow> LogFilter \<Rightarrow> nat option \<Rightarrow> string \<Rightarrow> nat \<Rightarrow> string \<times> FilterManager" where
  "NewLogFilter m logFilter ws fid now = addFilter m (LogKind logFilter) ws fid now"

definition NewBlockFilter ::
  "FilterManager \<Rightarrow> nat option \<Rightarrow> string \<Rightarrow> nat \<Rightarrow> string \<times> FilterManager" where
  "NewBlockFilter m ws fid now = addFilter m BlockKind ws fid now"

definition GetFilterChanges ::
  "FilterManager \<Rightarrow> string \<Rightarrow> nat \<Rightarrow> (error + filterItem list) \<times> FilterManager" where
  "GetFilterChanges m fid now =
     (case filters m fid of
        None \<Rightarrow> (Inl errFilterDoesNotExists, m)
      | Some f \<Rightarrow>
          (case flt_mode f of
             Subscription w \<Rightarrow> (Inl errFilterDoesNotExists, m)
           | Polling buffer \<Rightarrow>
               if now - flt_timestamp f > timeout m then (Inl errFilterDoesNotExists, m)
               else (Inr buffer,
                     m\<lparr>filters := (filters m)
                          (fid \<mapsto> f\<lparr>flt_mode := Polling [], flt_timestamp := now\<rparr>)\<rparr>)))"

section \<open>Backends and services of the tests\<close>

text \<open>
  Instances after the mocks of the repository's tests: \<open>nullBlockchainInterface\<close>, a
  backend with a transaction pool and one account, one with eleven blocks, one with
  receipts, and the dispatcher's mock service with a method that takes a block number
  (and returns it as an \<open>argUint64\<close>, so that the response shows what it received) and
  one that returns an error.
\<close>

definition nullBlockchainInterface :: EthBackend where
  "nullBlockchainInterface =
     \<lparr>b_Header = Some \<lparr>blk_Number = 0, blk_Hash = replicate 32 0, blk_StateRoot = replicate 32 0\<rparr>,
      b_GetReceiptsByHash = (\<lambda>hash. Inr []),
      b_GetHeaderByNumber = (\<lambda>block. (None, False)),
      b_GetNonce = (\<lambda>addr. (0, False)),
      b_GetAccount = (\<lambda>root addr. (None, None)),
      b_GetStorage = (\<lambda>root addr slot. Inr []),
      b_GetCode = (\<lambda>hash. Inr []),
      b_GetAvgGasPrice = None,
      b_GetLogs = (\<lambda>input. Inr []),
      b_Call = (\<lambda>tx header. Inr []),
      b_EstimateGas = (\<lambda>tx header. Inr 0),
      txn_GetHash = (\<lambda>tx. Inr (replicate 32 0)),
      ethgo_BytesToHash = (\<lambda>bs. replicate (32 - length bs) 0 @ drop (length bs - 32) bs)\<rparr>"

definition addr0 :: Address where
  "addr0 = 1 # replicate 19 0"

definition mockPool :: EthBackend where
  "mockPool =
     nullBlockchainInterface
       \<lparr>b_GetNonce := (\<lambda>addr. (7, True)),
        b_GetAccount := (\<lambda>root addr.
           (Some \<lparr>acc_Nonce = 3, acc_Balance = Some 100, acc_Root = replicate 32 0,
                  acc_CodeHash = []\<rparr>, None)),
        b_GetAvgGasPrice := Some 1\<rparr>"

definition noFrom :: txnArgs where
  "noFrom = \<lparr>From = None, To = None, Gas = None, GasPrice = None, Value = None,
             Input = None, Data = None, Nonce = None\<rparr>"

definition plainCall :: txnArgs where
  "plainCall = noFrom\<lparr>From := Some addr0, To := Some addr0\<rparr>"

definition head10 :: Block where
  "head10 = \<lparr>blk_Number = 10, blk_Hash = [10], blk_StateRoot = [0]\<rparr>"

definition mockBlockStore :: EthBackend where
  "mockBlockStore =
     nullBlockchainInterface
       \<lparr>b_Header := Some head10,
        b_GetHeaderByNumber := (\<lambda>n.
           if n \<le> 10 then (Some \<lparr>blk_Number = n, blk_Hash = [ucast n], blk_StateRoot = [0]\<rparr>, True)
           else (None, False))\<rparr>"

definition matchLog :: Log where
  "matchLog = \<lparr>log_Address = [1], log_Topics = [[2], [3]]\<rparr>"

definition mockStoreLogs :: EthBackend where
  "mockStoreLogs =
     nullBlockchainInterface
       \<lparr>b_Header := Some head10,
        b_GetReceiptsByHash := (\<lambda>hash.
           if hash = [1] \<or> hash = [2]
           then Inr [\<lparr>rcpt_Logs = [matchLog, \<lparr>log_Address = [1], log_Topics = [[3]]\<rparr>]\<rparr>]
           else Inr []),
        b_GetLogs := (\<lambda>input. if in_From input = 10 \<and> in_To input = 15 then Inr [matchLog] else Inr [])\<rparr>"

datatype gvalue = VService | VBlockNumber BlockNumber | VUint64 uint64

definition BlockNumber_type :: "gvalue rtype" where
  "BlockNumber_type =
     \<lparr>zero = VBlockNumber 0,
      decode = (\<lambda>j. case j of
                  JNull \<Rightarrow> Some (VBlockNumber 0)
                | JString s \<Rightarrow>
                    (case BlockNumber_UnmarshalJSON 0 (quoted s) of
                       (None, n) \<Rightarrow> Some (VBlockNumber n)
                     | (Some err, n) \<Rightarrow> None)
                | JNumber s \<Rightarrow>
                    (case BlockNumber_UnmarshalJSON 0 s of
                       (None, n) \<Rightarrow> Some (VBlockNumber n)
                     | (Some err, n) \<Rightarrow> None)
                | _ \<Rightarrow> None)\<rparr>"

definition mockService_type :: "gvalue rtype" where
  "mockService_type = \<lparr>zero = VService, decode = (\<lambda>j. None)\<rparr>"

definition mock_block :: "(gvalue, error) funcData" where
  "mock_block =
     \<lparr>inNum = 2, reqt = [mockService_type, BlockNumber_type],
      fv = (\<lambda>args. case args of
                     [s, VBlockNumber f] \<Rightarrow> (Some (VUint64 f), None)
                   | _ \<Rightarrow> (None, None)),
      isDyn = False\<rparr>"

definition mock_err :: "(gvalue, error) funcData" where
  "mock_err =
     \<lparr>inNum = 1, reqt = [mockService_type],
      fv = (\<lambda>args. (None, Some (Errorf ''err'' []))),
      isDyn = True\<rparr>"

definition mockService :: "(gvalue, error) serviceData" where
  "mockService = \<lparr>sv = VService, funcMap = [''block'' \<mapsto> mock_block, ''err'' \<mapsto> mock_err]\<rparr>"

definition mockDispatcher :: "(gvalue, error) Dispatcher" where
  "mockDispatcher =
     \<lparr>serviceMap = [''mock'' \<mapsto> mockService],
      json_Marshal = (\<lambda>v. case v of
                        VUint64 n \<Rightarrow> Inr (quoted (argUint64_MarshalText n))
                      | _ \<Rightarrow> Inl (Errorf ''json: unsupported type'' [])),
      json_MarshalResponse = (\<lambda>r. Inr (resp_Result r))\<rparr>"

definition emptyManager :: FilterManager where
  "emptyManager = \<lparr>filters = Map.empty, timeout = 60\<rparr>"

section \<open>Auxiliary notions for the proofs\<close>

text \<open>The number a string of hex digits denotes, read from the left.\<close>

fun hexval_loop :: "string \<Rightarrow> nat \<Rightarrow> nat" where
  "hexval_loop [] z = z"
| "hexval_loop (c # cs) z = hexval_loop cs (z * 16 + the (fromHexChar c))"

section \<open>Properties of the value codec\<close>

lemma less_16_cases:
  "(k::nat) < 16 \<Longrightarrow> k = 0 \<or> k = 1 \<or> k = 2 \<or> k = 3 \<or> k = 4 \<or> k = 5 \<or> k = 6 \<or> k = 7 \<or>
     k = 8 \<or> k = 9 \<or> k = 10 \<or> k = 11 \<or> k = 12 \<or> k = 13 \<or> k = 14 \<or> k = 15"
  by arith

lemma fromHexChar_hextable: "k < 16 \<Longrightarrow> fromHexChar (hextable ! k) = Some k"
  by (drule less_16_cases) (auto simp: hextable_def fromHexChar_def)

lemma digit_of_hextable: "k < 16 \<Longrightarrow> digit_of (hextable ! k) = Some k"
  by (drule less_16_cases) (auto simp: hextable_def digit_of_def)

lemma fifteen_mask: "(15 :: byte) = mask 4"
  by (simp add: mask_eq_exp_minus_1)

lemma byte_nibbles: "push_bit 4 (drop_bit 4 v) OR (v AND 15) = (v :: byte)"
  unfolding fifteen_mask by (rule bit_eqI) (auto simp: bit_simps)

lemma nibble_hi: "unat (drop_bit 4 (v::byte)) < 16"
proof -
  have "unat v < 2 ^ 8" using unsigned_less [of v, where 'a = nat] by simp
  then show ?thesis by (simp add: drop_bit_eq_div unat_div)
qed

lemma nibble_lo: "unat (v AND 15 :: byte) < 16"
proof -
  have "unat (v AND mask 4) = take_bit 4 (unat v)"
    by (simp add: unsigned_take_bit_eq flip: take_bit_eq_mask)
  then show ?thesis
    unfolding fifteen_mask by (simp add: take_bit_eq_mod)
qed

lemma hex_roundtrip: "hex_DecodeString (hex_EncodeToString bs) = Inr bs"
  by (induction bs) (simp_all add: fromHexChar_hextable nibble_hi nibble_lo byte_nibbles)

lemma hex_Encode_even: "even (length (hex_EncodeToString bs))"
  by (induction bs) simp_all

lemma TrimPrefix_0x: "TrimPrefix (''0x'' @ s) ''0x'' = s"
  by (simp add: TrimPrefix_def HasPrefix_def)

lemma argBytes_roundtrip: "argBytes_UnmarshalText b (argBytes_MarshalText v) = (None, v)"
  using hex_Encode_even [of v]
  by (simp add: argBytes_UnmarshalText_def argBytes_MarshalText_def encodeToHex_def decodeToHex_def
      TrimPrefix_0x hex_roundtrip Let_def del: append.simps)

lemma nat_and_15: "(u::nat) AND 15 = u mod 16"
proof -
  have "(15::nat) = mask 4" by (simp add: mask_eq_exp_minus_1)
  then have "u AND 15 = take_bit 4 u" by (simp only: take_bit_eq_mask)
  then show ?thesis by (simp add: take_bit_eq_mod)
qed

lemma FormatUint16_small: "u < 16 \<Longrightarrow> FormatUint16 u = [hextable ! u]"
  by (subst FormatUint16.simps) simp

lemma FormatUint16_large:
  "16 \<le> u \<Longrightarrow> FormatUint16 u = FormatUint16 (u div 16) @ [hextable ! (u mod 16)]"
  by (subst FormatUint16.simps) (simp add: nat_and_15 drop_bit_eq_div)

lemma FormatUint16_nonempty: "FormatUint16 u \<noteq> []"
  by (cases "u < 16") (simp_all add: FormatUint16_small FormatUint16_large)

lemma ParseUint_loop_snoc:
  "ParseUint_loop (xs @ [c]) base n =
     (case ParseUint_loop xs base n of Inl e \<Rightarrow> Inl e | Inr m \<Rightarrow> ParseUint_step c base m)"
  by (induction xs arbitrary: n) (auto split: sum.splits)

lemma ParseUint_step_hex:
  assumes "d < 16" and "m < 2 ^ 60"
  shows "ParseUint_step (hextable ! d) 16 m = Inr (m * 16 + d)"
proof -
  have "m * 16 + d < 2 ^ 64" using assms by simp
  then show ?thesis
    using assms by (simp add: ParseUint_step_def digit_of_hextable maxUint64_def)
qed

lemma ParseUint_loop_Format:
  "u < 2 ^ 64 \<Longrightarrow> ParseUint_loop (FormatUint16 u) 16 0 = Inr u"
proof (induction u rule: less_induct)
  case (less u)
  show ?case
  proof (cases "u < 16")
    case True
    then show ?thesis
      using ParseUint_step_hex [of u 0] by (simp add: FormatUint16_small)
  next
    case False
    then have "u div 16 < u" and "u div 16 < 2 ^ 64" and small: "u div 16 < 2 ^ 60"
      using less.prems by simp_all
    then have "ParseUint_loop (FormatUint16 (u div 16)) 16 0 = Inr (u div 16)"
      using less.IH by blast
    then show ?thesis
      using False ParseUint_step_hex [of "u mod 16" "u div 16"] small
      by (simp add: FormatUint16_large ParseUint_loop_snoc)
  qed
qed

lemma argUint64_roundtrip: "argUint64_UnmarshalText u (argUint64_MarshalText v) = (None, v)"
proof -
  have "unat v < 2 ^ 64" using unsigned_less [of v, where 'a = nat] by simp
  then have "ParseUint (FormatUint16 (unat v)) 16 = Inr v"
    by (simp add: ParseUint_def FormatUint16_nonempty ParseUint_loop_Format)
  then show ?thesis
    by (simp add: argUint64_UnmarshalText_def argUint64_MarshalText_def TrimPrefix_0x del: append.simps)
qed

lemma fromHexChar_less: "fromHexChar c = Some a \<Longrightarrow> a < 16"
  by (auto simp: fromHexChar_def Let_def split: if_splits)

lemma nat_nibble_pair:
  assumes "b < 16"
  shows "push_bit 4 a OR b = (a * 16 + b :: nat)"
proof -
  have b: "b = take_bit 4 b" using assms by (simp add: take_bit_nat_eq_self)
  have "push_bit 4 a + take_bit 4 b = push_bit 4 a OR take_bit 4 b"
    by (rule disjunctive_add) (auto simp: bit_simps)
  then show ?thesis using b by (simp add: push_bit_eq_mult)
qed

lemma unat_nibble_pair:
  assumes "a < 16" and "b < 16"
  shows "unat (push_bit 4 (of_nat a) OR of_nat b :: byte) = a * 16 + b"
proof -
  have "a * 16 + b < 256" using assms by simp
  have "(push_bit 4 (of_nat a) OR of_nat b :: byte) = of_nat (push_bit 4 a OR b)"
    by (simp add: of_nat_or_eq of_nat_push_bit)
  also have "\<dots> = of_nat (a * 16 + b)"
    using assms by (simp only: nat_nibble_pair)
  finally have "(push_bit 4 (of_nat a) OR of_nat b :: byte) = of_nat (a * 16 + b)" .
  then show ?thesis
    using \<open>a * 16 + b < 256\<close> by (simp only: unat_of_nat) simp
qed

lemma SetBytes_hexval:
  "hex_DecodeString s = Inr bs \<Longrightarrow> SetBytes_loop bs z = hexval_loop s z"
proof (induction s arbitrary: bs z rule: hex_DecodeString.induct)
  case 1
  then show ?case by simp
next
  case (2 p)
  then show ?case by (simp split: option.splits)
next
  case (3 p q rest)
  from "3.prems" obtain a b bs' where
    a: "fromHexChar p = Some a" and b: "fromHexChar q = Some b" and
    rest: "hex_DecodeString rest = Inr bs'" and
    bs: "bs = (push_bit 4 (of_nat a) OR of_nat b) # bs'"
    by (auto split: option.splits sum.splits)
  have val: "unat (push_bit 4 (of_nat a) OR of_nat b :: byte) = a * 16 + b"
    using a b by (intro unat_nibble_pair fromHexChar_less)
  have "SetBytes_loop bs' (z * 256 + (a * 16 + b)) = hexval_loop rest (z * 256 + (a * 16 + b))"
    using "3.IH" [OF a b rest] .
  then show ?case
    using a b by (simp add: bs val algebra_simps)
qed

lemma hex_DecodeString_ok:
  "even (length s) \<Longrightarrow> \<forall>c \<in> set s. fromHexChar c \<noteq> None \<Longrightarrow> \<exists>bs. hex_DecodeString s = Inr bs"
proof (induction s rule: hex_DecodeString.induct)
  case 1
  then show ?case by simp
next
  case (2 p)
  then show ?case by simp
next
  case (3 p q rest)
  from "3.prems" obtain a b where a: "fromHexChar p = Some a" and b: "fromHexChar q = Some b"
    by auto
  from "3.prems" have "\<exists>bs. hex_DecodeString rest = Inr bs"
    by (intro "3.IH" [OF a b]) simp_all
  then show ?case using a b by auto
qed

lemma hexval_loop_snoc:
  "hexval_loop (xs @ [c]) z = hexval_loop xs z * 16 + the (fromHexChar c)"
  by (induction xs arbitrary: z) simp_all

lemma hexval_Format: "hexval_loop (FormatUint16 u) 0 = u"
proof (induction u rule: less_induct)
  case (less u)
  show ?case
  proof (cases "u < 16")
    case True
    then show ?thesis by (simp add: FormatUint16_small fromHexChar_hextable)
  next
    case False
    then have "hexval_loop (FormatUint16 (u div 16)) 0 = u div 16"
      by (intro less.IH) simp
    then show ?thesis
      using False by (simp add: FormatUint16_large hexval_loop_snoc fromHexChar_hextable)
  qed
qed

lemma Format_valid: "\<forall>c \<in> set (FormatUint16 u). fromHexChar c \<noteq> None"
proof (induction u rule: less_induct)
  case (less u)
  show ?case
  proof (cases "u < 16")
    case True
    then show ?thesis by (simp add: FormatUint16_small fromHexChar_hextable)
  next
    case False
    then have "\<forall>c \<in> set (FormatUint16 (u div 16)). fromHexChar c \<noteq> None"
      by (intro less.IH) simp
    then show ?thesis
      using False by (simp add: FormatUint16_large fromHexChar_hextable)
  qed
qed

lemma decodeToHex_Format:
  "\<exists>bs. decodeToHex (''0x'' @ FormatUint16 u) = Inr bs \<and> SetBytes_loop bs 0 = u"
proof -
  define s where "s = (if length (FormatUint16 u) mod 2 \<noteq> 0
                        then ''0'' @ FormatUint16 u else FormatUint16 u)"
  have dec: "decodeToHex (''0x'' @ FormatUint16 u) = hex_DecodeString s"
    by (simp add: decodeToHex_def TrimPrefix_0x s_def Let_def del: append.simps)
  have ev: "even (length s)" by (auto simp: s_def)
  have valid: "\<forall>c \<in> set s. fromHexChar c \<noteq> None"
    using Format_valid [of u] by (auto simp: s_def fromHexChar_def)
  have val: "hexval_loop s 0 = u"
    using hexval_Format [of u] by (auto simp: s_def fromHexChar_def)
  from hex_DecodeString_ok [OF ev valid] obtain bs where bs: "hex_DecodeString s = Inr bs" ..
  then have "SetBytes_loop bs 0 = u" using SetBytes_hexval [OF bs, of 0] val by simp
  with bs dec show ?thesis by simp
qed

lemma argBig_roundtrip: "0 \<le> v \<Longrightarrow> argBig_UnmarshalText a (argBig_MarshalText v) = (None, v)"
proof -
  assume "0 \<le> v"
  then have enc: "argBig_MarshalText v = ''0x'' @ FormatUint16 (nat v)"
    by (simp add: argBig_MarshalText_def big_Text16_def)
  obtain bs where "decodeToHex (''0x'' @ FormatUint16 (nat v)) = Inr bs" and "SetBytes_loop bs 0 = nat v"
    using decodeToHex_Format [of "nat v"] by blast
  then show ?thesis
    using \<open>0 \<le> v\<close> by (simp add: argBig_UnmarshalText_def enc SetBytes_def del: append.simps)
qed

text \<open>
  Claim C8. For every value of type \<open>argUint64\<close>, every non-negative value of type
  \<open>argBig\<close> and every value of type \<open>argBytes\<close>, unmarshalling the text that marshalling
  produces succeeds and yields the value again.
\<close>

theorem codec_roundtrip:
  "argUint64_UnmarshalText u (argUint64_MarshalText v) = (None, v)
   \<and> (0 \<le> i \<longrightarrow> argBig_UnmarshalText a (argBig_MarshalText i) = (None, i))
   \<and> argBytes_UnmarshalText b (argBytes_MarshalText bs) = (None, bs)"
  by (simp add: argUint64_roundtrip argBig_roundtrip argBytes_roundtrip)

theorem codec_roundtrip_witness:
  "argUint64_UnmarshalText 0 ''0xff'' = (None, 255)
   \<and> argBig_UnmarshalText 0 ''0x1000'' = (None, 4096)
   \<and> argBytes_UnmarshalText [] ''0x01ff'' = (None, [1, 255])"
proof -
  have "argUint64_MarshalText 255 = ''0xff''"
    by (simp add: argUint64_MarshalText_def FormatUint16_small FormatUint16_large hextable_def)
  moreover have "argBig_MarshalText 4096 = ''0x1000''"
    by (simp add: argBig_MarshalText_def big_Text16_def FormatUint16_small FormatUint16_large
        hextable_def)
  moreover have "argBytes_MarshalText [1, 255] = ''0x01ff''"
    by (simp add: argBytes_MarshalText_def encodeToHex_def hextable_def drop_bit_eq_div)
  ultimately show ?thesis
    using codec_roundtrip [of 0 255 4096 0 "[]" "[1, 255]"] by simp
qed

text \<open>
  Claim C6. A string that is not valid hex must make the unmarshalling of an
  \<open>argBytes\<close> parameter fail with a decode error. The code does not: for the input
  \<open>0xzz\<close> the hex decoder reports the invalid byte, \<open>argBig.UnmarshalText\<close> returns that
  error, but \<open>argBytes.UnmarshalText\<close> returns nil and leaves its receiver as it was.
\<close>

theorem argBytes_swallows_error:
  "decodeToHex ''0xzz'' = Inl (InvalidByteError CHR ''z'')
   \<and> argBig_UnmarshalText 0 ''0xzz'' = (Some (InvalidByteError CHR ''z''), 0)
   \<and> argBytes_UnmarshalText [] ''0xzz'' = (None, [])"
  by (simp add: argBytes_UnmarshalText_def argBig_UnmarshalText_def decodeToHex_def
      TrimPrefix_def HasPrefix_def fromHexChar_def)

text \<open>
  Claim C7. An unsigned integer on the wire must become an absolute block height,
  never a tag or another negative value. The code parses 64 bits and converts the result
  to the signed \<open>BlockNumber\<close>: the text \<open>"0xffffffffffffffff"\<close> decodes to \<open>-1\<close>, the tag
  \<open>earliest\<close>, and \<open>18446744073709551614\<close> to \<open>-2\<close>, the tag \<open>latest\<close>.
\<close>

theorem BlockNumber_wraps:
  "BlockNumber_UnmarshalJSON 0 (quoted ''0xffffffffffffffff'') = (None, EarliestBlockNumber)
   \<and> sint EarliestBlockNumber = - 1
   \<and> stringToBlockNumber ''18446744073709551614'' = Inr LatestBlockNumber
   \<and> sint LatestBlockNumber = - 2"
  by (simp add: BlockNumber_UnmarshalJSON_def quoted_def stringToBlockNumber_def Trim_quote_def
      parseUint64orHex_def HasPrefix_def ParseUint_def ParseUint_step_def digit_of_def
      maxUint64_def EarliestBlockNumber_def LatestBlockNumber_def)

section \<open>Properties of the log filter\<close>

lemma addr_loop_mem: "addr_loop as a m = (m \<or> a \<in> set as)"
  by (induction as arbitrary: m) auto

lemma sub_loop_mem:
  "i < length lt \<Longrightarrow> sub_loop sub lt i m = Some (m \<or> lt ! i \<in> set sub)"
  by (induction sub) auto

lemma topics_loop_all:
  "i + length slots \<le> length lt \<Longrightarrow>
   topics_loop slots i lt =
     Some (\<forall>j < length slots. slots ! j = [] \<or> lt ! (i + j) \<in> set (slots ! j))"
proof (induction slots arbitrary: i)
  case Nil
  then show ?case by simp
next
  case (Cons sub rest)
  have here: "sub_loop sub lt i (length sub = 0) = Some (sub = [] \<or> lt ! i \<in> set sub)"
    using Cons.prems by (simp add: sub_loop_mem)
  have later: "topics_loop rest (Suc i) lt =
      Some (\<forall>j < length rest. rest ! j = [] \<or> lt ! (Suc i + j) \<in> set (rest ! j))"
    using Cons.prems by (intro Cons.IH) simp
  have split: "(\<forall>j < length (sub # rest). (sub # rest) ! j = [] \<or> lt ! (i + j) \<in> set ((sub # rest) ! j))
      = ((sub = [] \<or> lt ! i \<in> set sub) \<and>
         (\<forall>j < length rest. rest ! j = [] \<or> lt ! (Suc i + j) \<in> set (rest ! j)))"
    by (auto simp: less_Suc_eq_0_disj)
  show ?case
    unfolding split using here later by auto
qed

lemma Match_value:
  "Match L R =
     Some ((Addresses L = [] \<or> log_Address R \<in> set (Addresses L)) \<and>
           length (Topics L) \<le> length (log_Topics R) \<and>
           (\<forall>i < length (Topics L). Topics L ! i = [] \<or> log_Topics R ! i \<in> set (Topics L ! i)))"
proof -
  have inrange: "length (Topics L) \<le> length (log_Topics R) \<Longrightarrow>
      topics_loop (Topics L) 0 (log_Topics R) =
        Some (\<forall>i < length (Topics L). Topics L ! i = [] \<or> log_Topics R ! i \<in> set (Topics L ! i))"
    using topics_loop_all [of 0 "Topics L" "log_Topics R"] by simp
  show ?thesis
    using inrange by (auto simp: Match_def addr_loop_mem)
qed

lemma Match_not_None: "Match L R \<noteq> None"
  by (simp add: Match_value)

text \<open>
  Claim C1. For every filter \<open>L\<close> and log \<open>R\<close>, \<open>L.Match(R)\<close> returns (and does not
  panic) true if and only if the address list of \<open>L\<close> is empty or contains the address of
  \<open>R\<close>, \<open>L\<close> has at most as many topic slots as \<open>R\<close> has topics, and every slot of \<open>L\<close> is
  empty or contains the topic of \<open>R\<close> at the same position. A filter with more slots than
  the log has topics does not match.
\<close>

theorem Match_iff:
  "Match L R =
     Some ((Addresses L = [] \<or> log_Address R \<in> set (Addresses L)) \<and>
           length (Topics L) \<le> length (log_Topics R) \<and>
           (\<forall>i < length (Topics L). Topics L ! i = [] \<or> log_Topics R ! i \<in> set (Topics L ! i)))
   \<and> (length (log_Topics R) < length (Topics L) \<longrightarrow> Match L R = Some False)"
  by (auto simp: Match_value)

theorem Match_iff_witness:
  "Match \<lparr>BlockHash = None, fromBlock = 0, toBlock = 0, Addresses = [[1]], Topics = [[], [[2]]]\<rparr>
         \<lparr>log_Address = [1], log_Topics = [[1], [2], [3]]\<rparr> = Some True
   \<and> Match \<lparr>BlockHash = None, fromBlock = 0, toBlock = 0, Addresses = [], Topics = [[[1]], [[1]]]\<rparr>
         \<lparr>log_Address = [1], log_Topics = [[1]]\<rparr> = Some False"
  using Match_iff [of "\<lparr>BlockHash = None, fromBlock = 0, toBlock = 0, Addresses = [[1]], Topics = [[], [[2]]]\<rparr>"
                      "\<lparr>log_Address = [1], log_Topics = [[1], [2], [3]]\<rparr>"]
        Match_iff [of "\<lparr>BlockHash = None, fromBlock = 0, toBlock = 0, Addresses = [], Topics = [[[1]], [[1]]]\<rparr>"
                      "\<lparr>log_Address = [1], log_Topics = [[1]]\<rparr>"]
  by (simp add: less_Suc_eq_0_disj)

section \<open>Properties of the eth endpoint\<close>

lemma logs_loop_filter:
  "logs_loop f ls acc = Inr (acc @ filter (\<lambda>l. Match f l = Some True) ls)"
proof (induction ls arbitrary: acc)
  case Nil
  then show ?case by simp
next
  case (Cons l ls)
  obtain m where m: "Match f l = Some m"
    using Match_not_None [of f l] by auto
  show ?case
    by (cases m) (simp_all add: m Cons.IH)
qed

lemma receipts_loop_filter:
  "receipts_loop f rs acc =
     Inr (acc @ filter (\<lambda>l. Match f l = Some True) (concat (map rcpt_Logs rs)))"
  by (induction rs arbitrary: acc) (simp_all add: logs_loop_filter)

lemma Match_range: "Match (f\<lparr>fromBlock := x, toBlock := y\<rparr>) l = Match f l"
  by (simp add: Match_def)

lemma resolveNum_head:
  "resolveNum (Some head) n =
     Inr (if n = PendingBlockNumber \<or> n = EarliestBlockNumber \<or> n = LatestBlockNumber
          then blk_Number head else n)"
  by (simp add: resolveNum_def Let_def)

text \<open>
  Claim C2. If the filter of \<open>GetLogs\<close> has a block hash, the call fetches the receipts
  of that hash (an error of the backend is returned) and returns exactly their logs that
  \<open>Match\<close> accepts, in order, whatever \<open>fromBlock\<close> and \<open>toBlock\<close> are. Otherwise, with
  \<open>head\<close> the head of the backend, each of \<open>fromBlock\<close> and \<open>toBlock\<close> resolves to the number
  of the head if it is one of the three tags and to itself if not; if then \<open>to < from\<close>
  the call fails with "incorrect range", and if not its result is that of the backend's
  \<open>GetLogs\<close> on the record of the resolved range, the addresses and the topics.
\<close>

theorem GetLogs_spec:
  "(BlockHash f = Some h \<longrightarrow>
      GetLogs b f =
        (case b_GetReceiptsByHash b h of
           Inl err \<Rightarrow> Inl err
         | Inr receipts \<Rightarrow>
             Inr (filter (\<lambda>l. Match f l = Some True) (concat (map rcpt_Logs receipts)))))
   \<and> (BlockHash f = None \<longrightarrow> b_Header b = Some head \<longrightarrow>
      GetLogs b f =
        (let from = (if fromBlock f = PendingBlockNumber \<or> fromBlock f = EarliestBlockNumber
                        \<or> fromBlock f = LatestBlockNumber
                     then blk_Number head else fromBlock f);
             to = (if toBlock f = PendingBlockNumber \<or> toBlock f = EarliestBlockNumber
                      \<or> toBlock f = LatestBlockNumber
                   then blk_Number head else toBlock f)
         in if to < from then Inl (Errorf ''incorrect range'' [])
            else b_GetLogs b \<lparr>in_From = from, in_To = to,
                              in_Addresses = Addresses f, in_Topics = Topics f\<rparr>))
   \<and> (BlockHash f = Some h \<longrightarrow> GetLogs b (f\<lparr>fromBlock := x, toBlock := y\<rparr>) = GetLogs b f)"
proof (intro conjI impI)
  assume "BlockHash f = Some h"
  then show "GetLogs b f =
        (case b_GetReceiptsByHash b h of
           Inl err \<Rightarrow> Inl err
         | Inr receipts \<Rightarrow>
             Inr (filter (\<lambda>l. Match f l = Some True) (concat (map rcpt_Logs receipts))))"
    by (simp add: GetLogs_def receipts_loop_filter split: sum.splits)
next
  assume "BlockHash f = None" and "b_Header b = Some head"
  then show "GetLogs b f =
        (let from = (if fromBlock f = PendingBlockNumber \<or> fromBlock f = EarliestBlockNumber
                        \<or> fromBlock f = LatestBlockNumber
                     then blk_Number head else fromBlock f);
             to = (if toBlock f = PendingBlockNumber \<or> toBlock f = EarliestBlockNumber
                      \<or> toBlock f = LatestBlockNumber
                   then blk_Number head else toBlock f)
         in if to < from then Inl (Errorf ''incorrect range'' [])
            else b_GetLogs b \<lparr>in_From = from, in_To = to,
                              in_Addresses = Addresses f, in_Topics = Topics f\<rparr>)"
    by (simp add: GetLogs_def resolveNum_head Let_def split: sum.splits)
next
  assume "BlockHash f = Some h"
  then show "GetLogs b (f\<lparr>fromBlock := x, toBlock := y\<rparr>) = GetLogs b f"
    by (simp add: GetLogs_def receipts_loop_filter Match_range split: sum.splits)
qed

theorem GetLogs_spec_witness:
  "GetLogs mockStoreLogs
       \<lparr>BlockHash = Some [1], fromBlock = 10, toBlock = 5, Addresses = [], Topics = [[[2]]]\<rparr>
     = Inr [matchLog]
   \<and> GetLogs mockStoreLogs
       \<lparr>BlockHash = None, fromBlock = LatestBlockNumber, toBlock = 5, Addresses = [], Topics = []\<rparr>
     = Inl (Errorf ''incorrect range'' [])
   \<and> GetLogs mockStoreLogs
       \<lparr>BlockHash = None, fromBlock = PendingBlockNumber, toBlock = 15, Addresses = [], Topics = []\<rparr>
     = Inr [matchLog]"
  using GetLogs_spec [of "\<lparr>BlockHash = Some [1], fromBlock = 10, toBlock = 5, Addresses = [],
                           Topics = [[[2]]]\<rparr>" "[1]" mockStoreLogs head10]
    GetLogs_spec [of "\<lparr>BlockHash = None, fromBlock = LatestBlockNumber, toBlock = 5,
                       Addresses = [], Topics = []\<rparr>" "[]" mockStoreLogs head10]
    GetLogs_spec [of "\<lparr>BlockHash = None, fromBlock = PendingBlockNumber, toBlock = 15,
                       Addresses = [], Topics = []\<rparr>" "[]" mockStoreLogs head10]
  by (simp add: mockStoreLogs_def nullBlockchainInterface_def head10_def matchLog_def Match_def
      LatestBlockNumber_def PendingBlockNumber_def EarliestBlockNumber_def)

lemma getBlockHeaderImpl_tags:
  "getBlockHeaderImpl b LatestBlockNumber = Inr (b_Header b)"
  "getBlockHeaderImpl b EarliestBlockNumber =
     Inl (Errorf ''fetching the earliest header is not supported'' [])"
  "getBlockHeaderImpl b PendingBlockNumber =
     Inl (Errorf ''fetching the pending header is not supported'' [])"
  by (simp_all add: getBlockHeaderImpl_def LatestBlockNumber_def EarliestBlockNumber_def
      PendingBlockNumber_def)

lemma getBlockHeaderImpl_height:
  "n \<noteq> LatestBlockNumber \<Longrightarrow> n \<noteq> EarliestBlockNumber \<Longrightarrow> n \<noteq> PendingBlockNumber \<Longrightarrow>
   getBlockHeaderImpl b n =
     (if snd (b_GetHeaderByNumber b n) then Inr (fst (b_GetHeaderByNumber b n))
      else Inl (Errorf ''Error fetching block number %d header'' [ArgUint n]))"
  by (simp add: getBlockHeaderImpl_def split: prod.splits)

lemma GetBlockByNumber_eq: "GetBlockByNumber b n full = getBlockHeaderImpl b n"
  by (simp add: GetBlockByNumber_def split: sum.splits)

lemma state_ops_fail:
  "getBlockHeaderImpl b n = Inl err \<Longrightarrow>
   GetBalance b a n = Inl err \<and> GetCode b a n = Inl err \<and> GetStorageAt b a i n = Inl err"
  by (simp add: GetBalance_def GetCode_def GetStorageAt_def)

lemma state_ops_cong:
  "getBlockHeaderImpl b n = getBlockHeaderImpl b n' \<Longrightarrow>
   GetBalance b a n = GetBalance b a n' \<and> GetCode b a n = GetCode b a n'
   \<and> GetStorageAt b a i n = GetStorageAt b a i n'"
  by (simp add: GetBalance_def GetCode_def GetStorageAt_def)

lemma Call_fail:
  "fst (decodeTxn b arg) = Inr txn \<Longrightarrow> getBlockHeaderImpl b n = Inl err \<Longrightarrow>
   fst (Call b arg n) = Inl err"
  by (cases "decodeTxn b arg") (simp add: Call_def)

lemma Call_cong:
  "getBlockHeaderImpl b n = getBlockHeaderImpl b n' \<Longrightarrow> Call b arg n = Call b arg n'"
  unfolding Call_def by (cases "decodeTxn b arg") (simp split: sum.splits)

lemma getNextNonce_not_pending:
  "n \<noteq> PendingBlockNumber \<Longrightarrow>
   getNextNonce b a n =
     (case getBlockHeaderImpl b n of
        Inl err \<Rightarrow> Inl err
      | Inr header \<Rightarrow>
          (case header of
             None \<Rightarrow> Inl Panic
           | Some h \<Rightarrow>
               (case b_GetAccount b (blk_StateRoot h) a of
                  (acc, err) \<Rightarrow>
                    (case err of
                       Some e \<Rightarrow> Inl e
                     | None \<Rightarrow>
                         (case acc of None \<Rightarrow> Inl Panic | Some x \<Rightarrow> Inr (acc_Nonce x))))))"
  by (simp add: getNextNonce_def)

lemma getNextNonce_pending:
  "getNextNonce b a PendingBlockNumber =
     (if snd (b_GetNonce b a) then Inr (fst (b_GetNonce b a))
      else getNextNonce b a LatestBlockNumber)"
  by (simp add: getNextNonce_def LatestBlockNumber_def PendingBlockNumber_def)

lemma GetTransactionCount_eq: "GetTransactionCount b a n = getNextNonce b a n"
  by (simp add: GetTransactionCount_def split: sum.splits)

text \<open>
  Claim C3 (amended). \<open>getBlockHeaderImpl\<close> resolves \<open>latest\<close> to the head of the
  backend, fails with a "not supported" error for \<open>earliest\<close> and for \<open>pending\<close>, and
  looks any other number up in the backend, failing when the backend does not find it.
  \<open>GetBlockByNumber\<close> returns what it returns. \<open>GetBalance\<close>, \<open>GetCode\<close> and
  \<open>GetStorageAt\<close> fail with its error when it fails and depend on the number only
  through the header it resolves; so does \<open>Call\<close> once its arguments have been normalised,
  and so does \<open>GetTransactionCount\<close> for every number but \<open>pending\<close>. For \<open>pending\<close>,
  \<open>GetTransactionCount\<close> returns the nonce of the pool when the backend has one and is
  the call for \<open>latest\<close> when it has none.
\<close>

theorem header_resolution:
  "getBlockHeaderImpl b LatestBlockNumber = Inr (b_Header b)
   \<and> getBlockHeaderImpl b EarliestBlockNumber =
       Inl (Errorf ''fetching the earliest header is not supported'' [])
   \<and> getBlockHeaderImpl b PendingBlockNumber =
       Inl (Errorf ''fetching the pending header is not supported'' [])
   \<and> (n \<noteq> LatestBlockNumber \<and> n \<noteq> EarliestBlockNumber \<and> n \<noteq> PendingBlockNumber \<longrightarrow>
        getBlockHeaderImpl b n =
          (if snd (b_GetHeaderByNumber b n) then Inr (fst (b_GetHeaderByNumber b n))
           else Inl (Errorf ''Error fetching block number %d header'' [ArgUint n])))
   \<and> GetBlockByNumber b n full = getBlockHeaderImpl b n
   \<and> (getBlockHeaderImpl b n = Inl err \<longrightarrow>
        GetBalance b a n = Inl err \<and> GetCode b a n = Inl err \<and> GetStorageAt b a i n = Inl err
        \<and> (n \<noteq> PendingBlockNumber \<longrightarrow> GetTransactionCount b a n = Inl err)
        \<and> (fst (decodeTxn b arg) = Inr txn \<longrightarrow> fst (Call b arg n) = Inl err))
   \<and> (getBlockHeaderImpl b n = getBlockHeaderImpl b n' \<longrightarrow>
        GetBalance b a n = GetBalance b a n' \<and> GetCode b a n = GetCode b a n'
        \<and> GetStorageAt b a i n = GetStorageAt b a i n'
        \<and> (n \<noteq> PendingBlockNumber \<and> n' \<noteq> PendingBlockNumber \<longrightarrow>
             GetTransactionCount b a n = GetTransactionCount b a n')
        \<and> Call b arg n = Call b arg n')
   \<and> GetTransactionCount b a PendingBlockNumber =
       (if snd (b_GetNonce b a) then Inr (fst (b_GetNonce b a))
        else GetTransactionCount b a LatestBlockNumber)"
proof -
  have fail: "getBlockHeaderImpl b n = Inl err \<Longrightarrow> n \<noteq> PendingBlockNumber \<Longrightarrow>
      GetTransactionCount b a n = Inl err"
    by (simp add: GetTransactionCount_eq getNextNonce_not_pending)
  have cong: "getBlockHeaderImpl b n = getBlockHeaderImpl b n' \<Longrightarrow> n \<noteq> PendingBlockNumber \<Longrightarrow>
      n' \<noteq> PendingBlockNumber \<Longrightarrow> GetTransactionCount b a n = GetTransactionCount b a n'"
    by (simp add: GetTransactionCount_eq getNextNonce_not_pending)
  show ?thesis
    using fail cong state_ops_fail [of b n err a i] state_ops_cong [of b n n' a i]
      Call_fail [of b arg txn n err] Call_cong [of b n n' arg]
      getBlockHeaderImpl_height [of n b]
    by (simp add: getBlockHeaderImpl_tags GetBlockByNumber_eq GetTransactionCount_eq
        getNextNonce_pending)
qed

theorem header_resolution_witness:
  "GetBlockByNumber mockBlockStore 50 False
     = Inl (Errorf ''Error fetching block number %d header'' [ArgUint 50])
   \<and> GetBalance mockBlockStore addr0 50
     = Inl (Errorf ''Error fetching block number %d header'' [ArgUint 50])
   \<and> GetBalance mockBlockStore addr0 EarliestBlockNumber
     = Inl (Errorf ''fetching the earliest header is not supported'' [])
   \<and> GetStorageAt mockBlockStore addr0 [1] 10 = GetStorageAt mockBlockStore addr0 [1] LatestBlockNumber"
proof -
  have high: "getBlockHeaderImpl mockBlockStore 50
      = Inl (Errorf ''Error fetching block number %d header'' [ArgUint 50])"
    by (simp add: getBlockHeaderImpl_def mockBlockStore_def LatestBlockNumber_def
        PendingBlockNumber_def EarliestBlockNumber_def)
  have head: "getBlockHeaderImpl mockBlockStore 10 = getBlockHeaderImpl mockBlockStore LatestBlockNumber"
    by (simp add: getBlockHeaderImpl_def mockBlockStore_def head10_def LatestBlockNumber_def
        PendingBlockNumber_def EarliestBlockNumber_def)
  show ?thesis
    using header_resolution [where b = mockBlockStore and n = 50 and a = addr0 and full = False
        and err = "Errorf ''Error fetching block number %d header'' [ArgUint 50]"]
      header_resolution [where b = mockBlockStore and n = EarliestBlockNumber and a = addr0
        and err = "Errorf ''fetching the earliest header is not supported'' []"]
      header_resolution [where b = mockBlockStore and n = 10 and n' = LatestBlockNumber
        and a = addr0 and i = "[1]"]
      high head
    by simp
qed

text \<open>
  The claim as stated fails: with a backend whose pool knows the account,
  \<open>GetTransactionCount\<close> for \<open>pending\<close> returns the nonce; and \<open>Call\<close> for \<open>earliest\<close> without
  a sender fails on the sender before any header is resolved.
\<close>

theorem header_resolution_counterexample:
  "GetTransactionCount mockPool addr0 PendingBlockNumber = Inr 7
   \<and> fst (Call mockPool noFrom EarliestBlockNumber) = Inl (Errorf ''from is empty'' [])"
  by (simp add: GetTransactionCount_def getNextNonce_def mockPool_def Call_def decodeTxn_def
      noFrom_def)

lemma Call_args: "snd (Call b arg n) = snd (decodeTxn b arg)"
  by (cases "decodeTxn b arg") (simp add: Call_def split: sum.splits)

lemma EstimateGas_args: "snd (EstimateGas b arg rawNum) = snd (decodeTxn b arg)"
  by (cases "decodeTxn b arg") (simp add: EstimateGas_def split: sum.splits)

lemma setNonce_frame:
  assumes "decodeTxn_setNonce b sender arg = Inr arg'"
  shows "From arg' = From arg" "To arg' = To arg" "Data arg' = Data arg" "Input arg' = Input arg"
    "Gas arg' = Gas arg" "Value arg' = Value arg" "GasPrice arg' = GasPrice arg"
    "Nonce arg' \<noteq> None" "Nonce arg \<noteq> None \<longrightarrow> Nonce arg' = Nonce arg"
  using assms by (auto simp: decodeTxn_setNonce_def split: if_splits sum.splits)

lemma setValue_frame:
  "From (decodeTxn_setValue arg) = From arg" "To (decodeTxn_setValue arg) = To arg"
  "Data (decodeTxn_setValue arg) = Data arg" "Input (decodeTxn_setValue arg) = Input arg"
  "Gas (decodeTxn_setValue arg) = Gas arg" "GasPrice (decodeTxn_setValue arg) = GasPrice arg"
  "Nonce (decodeTxn_setValue arg) = Nonce arg"
  "Value (decodeTxn_setValue arg) = Some (case Value arg of None \<Rightarrow> [] | Some v \<Rightarrow> v)"
  by (auto simp: decodeTxn_setValue_def)

lemma setGasPrice_frame:
  assumes "decodeTxn_setGasPrice b arg = Inr arg'"
  shows "From arg' = From arg" "To arg' = To arg" "Data arg' = Data arg" "Input arg' = Input arg"
    "Gas arg' = Gas arg" "Value arg' = Value arg" "Nonce arg' = Nonce arg"
    "GasPrice arg' =
       (case GasPrice arg of Some p \<Rightarrow> Some p | None \<Rightarrow> map_option big_Bytes (b_GetAvgGasPrice b))"
  using assms by (auto simp: decodeTxn_setGasPrice_def split: if_splits option.splits)

lemma setGas_frame:
  "From (decodeTxn_setGas arg) = From arg" "To (decodeTxn_setGas arg) = To arg"
  "Data (decodeTxn_setGas arg) = Data arg" "Input (decodeTxn_setGas arg) = Input arg"
  "Value (decodeTxn_setGas arg) = Value arg" "GasPrice (decodeTxn_setGas arg) = GasPrice arg"
  "Nonce (decodeTxn_setGas arg) = Nonce arg"
  "Gas (decodeTxn_setGas arg) = Some (case Gas arg of None \<Rightarrow> 1000000 | Some g \<Rightarrow> g)"
  by (auto simp: decodeTxn_setGas_def)

lemma build_args: "snd (decodeTxn_build b sender arg input) = arg"
  by (simp add: decodeTxn_build_def Let_def split: option.split sum.split)

lemma decodeTxn_frame:
  "From (snd (decodeTxn b arg)) = From arg \<and> To (snd (decodeTxn b arg)) = To arg
   \<and> Data (snd (decodeTxn b arg)) = Data arg \<and> Input (snd (decodeTxn b arg)) = Input arg"
proof (cases "From arg")
  case None
  then show ?thesis by (simp add: decodeTxn_def)
next
  case (Some sender)
  show ?thesis
  proof (cases "decodeTxn_setNonce b sender arg")
    case (Inl err)
    then show ?thesis using Some by (simp add: decodeTxn_def)
  next
    case (Inr arg1)
    note n = setNonce_frame [OF Inr]
    show ?thesis
    proof (cases "decodeTxn_setGasPrice b (decodeTxn_setValue arg1)")
      case (Inl err)
      then show ?thesis using Some Inr n by (simp add: decodeTxn_def setValue_frame)
    next
      case (Inr arg3)
      note p = setGasPrice_frame [OF Inr]
      show ?thesis
        using Some \<open>decodeTxn_setNonce b sender arg = Inr arg1\<close> Inr n p
        by (simp add: decodeTxn_def setValue_frame setGas_frame build_args)
    qed
  qed
qed

lemma decodeTxn_defaults:
  assumes "fst (decodeTxn b arg) = Inr txn"
  shows "Gas (snd (decodeTxn b arg)) = Some (case Gas arg of None \<Rightarrow> 1000000 | Some g \<Rightarrow> g)
    \<and> Value (snd (decodeTxn b arg)) = Some (case Value arg of None \<Rightarrow> [] | Some v \<Rightarrow> v)
    \<and> GasPrice (snd (decodeTxn b arg)) =
           (case GasPrice arg of
              Some p \<Rightarrow> Some p
            | None \<Rightarrow> map_option big_Bytes (b_GetAvgGasPrice b))
    \<and> Nonce (snd (decodeTxn b arg)) \<noteq> None
    \<and> (Nonce arg \<noteq> None \<longrightarrow> Nonce (snd (decodeTxn b arg)) = Nonce arg)"
proof (cases "From arg")
  case None
  then show ?thesis using assms by (simp add: decodeTxn_def)
next
  case (Some sender)
  show ?thesis
  proof (cases "decodeTxn_setNonce b sender arg")
    case (Inl err)
    then show ?thesis using Some assms by (simp add: decodeTxn_def split: if_splits)
  next
    case (Inr arg1)
    note n = setNonce_frame [OF Inr]
    show ?thesis
    proof (cases "decodeTxn_setGasPrice b (decodeTxn_setValue arg1)")
      case (Inl err)
      then show ?thesis
        using Some Inr assms by (simp add: decodeTxn_def split: if_splits)
    next
      case (Inr arg3)
      note p = setGasPrice_frame [OF Inr]
      have "snd (decodeTxn b arg) = decodeTxn_setGas arg3"
        using Some \<open>decodeTxn_setNonce b sender arg = Inr arg1\<close> Inr assms
        by (auto simp: decodeTxn_def build_args split: if_splits)
      then show ?thesis
        using n p by (simp add: setValue_frame setGas_frame)
    qed
  qed
qed

text \<open>
  Claim C10 (amended). \<open>Call\<close> and \<open>EstimateGas\<close> leave their \<open>txnArgs\<close> argument as
  \<open>decodeTxn\<close> leaves it. On every path \<open>From\<close>, \<open>To\<close>, \<open>Data\<close> and \<open>Input\<close> are unchanged.
  When \<open>decodeTxn\<close> returns a transaction, \<open>Gas\<close>, \<open>Value\<close>, \<open>GasPrice\<close> and \<open>Nonce\<close> are all
  present in the caller's record: a field that was present keeps its value, an absent
  \<open>Gas\<close> is 1000000, an absent \<open>Value\<close> the empty bytes, an absent \<open>GasPrice\<close> the bytes
  of the backend's average gas price, and an absent \<open>Nonce\<close> has been filled.
\<close>

theorem txnArgs_normalization:
  "snd (Call b arg n) = snd (decodeTxn b arg)
   \<and> snd (EstimateGas b arg rawNum) = snd (decodeTxn b arg)
   \<and> From (snd (decodeTxn b arg)) = From arg \<and> To (snd (decodeTxn b arg)) = To arg
   \<and> Data (snd (decodeTxn b arg)) = Data arg \<and> Input (snd (decodeTxn b arg)) = Input arg
   \<and> (fst (decodeTxn b arg) = Inr txn \<longrightarrow>
        Gas (snd (decodeTxn b arg)) = Some (case Gas arg of None \<Rightarrow> 1000000 | Some g \<Rightarrow> g)
        \<and> Value (snd (decodeTxn b arg)) = Some (case Value arg of None \<Rightarrow> [] | Some v \<Rightarrow> v)
        \<and> GasPrice (snd (decodeTxn b arg)) =
             (case GasPrice arg of
                Some p \<Rightarrow> Some p
              | None \<Rightarrow> map_option big_Bytes (b_GetAvgGasPrice b))
        \<and> Nonce (snd (decodeTxn b arg)) \<noteq> None
        \<and> (Nonce arg \<noteq> None \<longrightarrow> Nonce (snd (decodeTxn b arg)) = Nonce arg))"
  using decodeTxn_frame [of b arg] decodeTxn_defaults [of b arg txn]
  by (simp add: Call_args EstimateGas_args)

lemma decodeTxn_plainCall:
  "decodeTxn mockPool plainCall =
     (Inr \<lparr>txn_From = addr0, txn_To = Some addr0, txn_Gas = 1000000, txn_Value = 0,
           txn_Input = [], txn_Nonce = 3, txn_Hash = replicate 32 0\<rparr>,
      plainCall\<lparr>Nonce := Some 3, Value := Some [], GasPrice := Some (big_Bytes 1),
                 Gas := Some 1000000\<rparr>)"
  by (simp add: decodeTxn_def decodeTxn_setNonce_def decodeTxn_setValue_def
      decodeTxn_setGasPrice_def decodeTxn_input_def decodeTxn_setGas_def decodeTxn_build_def
      plainCall_def noFrom_def mockPool_def nullBlockchainInterface_def
      getNextNonce_def getBlockHeaderImpl_def LatestBlockNumber_def PendingBlockNumber_def
      EarliestBlockNumber_def SetBytes_def)

theorem txnArgs_normalization_witness:
  "Gas (snd (Call mockPool plainCall LatestBlockNumber)) = Some 1000000
   \<and> Value (snd (Call mockPool plainCall LatestBlockNumber)) = Some []
   \<and> To (snd (Call mockPool plainCall LatestBlockNumber)) = Some addr0"
  using txnArgs_normalization [of mockPool plainCall LatestBlockNumber None
      "\<lparr>txn_From = addr0, txn_To = Some addr0, txn_Gas = 1000000, txn_Value = 0,
           txn_Input = [], txn_Nonce = 3, txn_Hash = replicate 32 0\<rparr>"]
  by (simp add: decodeTxn_plainCall) (simp add: plainCall_def noFrom_def)

text \<open>
  The claim as stated fails: without a sender \<open>Call\<close> returns an error and the absent
  \<open>Gas\<close> stays absent; and the nonce written back is the one of the account at the
  latest header (3 here), not the pending nonce of the pool (7 here).
\<close>

theorem txnArgs_normalization_counterexample:
  "Gas noFrom = None \<and> Gas (snd (Call mockPool noFrom LatestBlockNumber)) = None
   \<and> Nonce plainCall = None \<and> b_GetNonce mockPool addr0 = (7, True)
   \<and> Nonce (snd (Call mockPool plainCall LatestBlockNumber)) = Some 3"
  by (simp add: Call_args decodeTxn_plainCall)
     (simp add: decodeTxn_def noFrom_def plainCall_def mockPool_def)

section \<open>Properties of the dispatcher\<close>

lemma decode_inputs_None_iff:
  "decode_inputs ts xs = None \<longleftrightarrow>
     (\<exists>i. i < length xs \<and> i < length ts \<and> decode (ts ! i) (xs ! i) = None)"
proof (induction ts xs rule: decode_inputs.induct)
  case (1 elems)
  then show ?case by simp
next
  case (2 t ts)
  then show ?case by simp
next
  case (3 t ts x xs)
  show ?case
  proof (cases "decode t x")
    case None
    then show ?thesis by auto
  next
    case (Some v)
    have "(\<exists>i. i < length (x # xs) \<and> i < length (t # ts) \<and> decode ((t # ts) ! i) ((x # xs) ! i) = None)
        \<longleftrightarrow> (\<exists>i. i < length xs \<and> i < length ts \<and> decode (ts ! i) (xs ! i) = None)"
      using Some by (auto simp: less_Suc_eq_0_disj)
    then show ?thesis
      using Some "3.IH" [OF Some] by (auto split: option.splits)
  qed
qed

lemma error_objects_differ: "internalError \<noteq> invalidArguments m"
  by (simp add: internalError_def invalidArguments_def)

lemma handleReq_registered:
  assumes "getFnHandler d req = Inr (service, fd)"
    and "reqt fd \<noteq> []" and "inNum fd = length (reqt fd)"
  shows "handleReq d req logger =
     (case json_Unmarshal_inputs (tl (reqt fd)) (req_Params req) of
        None \<Rightarrow> (Some (Inl (invalidArguments (req_Method req))),
                 logger @ [LogRequest (req_Method req) (req_ID req)])
      | Some inputs \<Rightarrow>
          (case fv fd (sv service # inputs) of
             (res, Some err) \<Rightarrow>
               (Some (Inl internalError),
                logger @ [LogRequest (req_Method req) (req_ID req),
                          LogDispatchError (req_Method req) err])
           | (res, None) \<Rightarrow>
               (case (case res of None \<Rightarrow> Inr [] | Some r \<Rightarrow> json_Marshal d r) of
                  Inl err \<Rightarrow>
                    (Some (Inl internalError),
                     logger @ [LogRequest (req_Method req) (req_ID req),
                               LogDispatchError (req_Method req) err])
                | Inr data \<Rightarrow>
                    (case json_MarshalResponse d
                            \<lparr>resp_ID = req_ID req, resp_JSONRPC = ''2.0'', resp_Result = data\<rparr> of
                       Inl err \<Rightarrow>
                         (Some (Inl internalError),
                          logger @ [LogRequest (req_Method req) (req_ID req),
                                    LogDispatchError (req_Method req) err])
                     | Inr respBytes \<Rightarrow>
                         (Some (Inr respBytes),
                          logger @ [LogRequest (req_Method req) (req_ID req)])))))"
  using assms by (simp add: handleReq_def Let_def split: option.split prod.split sum.split)

text \<open>
  Claim C4. Whenever the handler of a registered method, invoked by \<open>handleReq\<close> on
  the decoded parameters, returns a non-nil error, the result is the error object with
  code -32603 and the message "internal error", whatever the error is; the error itself
  goes to the logger only.
\<close>

theorem handler_error_internal:
  assumes "getFnHandler d req = Inr (service, fd)"
    and "reqt fd \<noteq> []" and "inNum fd = length (reqt fd)"
    and "json_Unmarshal_inputs (tl (reqt fd)) (req_Params req) = Some inputs"
    and "fv fd (sv service # inputs) = (res, Some err)"
  shows "handleReq d req logger =
     (Some (Inl \<lparr>Code = - 32603, Message = ''internal error''\<rparr>),
      logger @ [LogRequest (req_Method req) (req_ID req), LogDispatchError (req_Method req) err])"
  using assms(4,5) by (simp add: handleReq_registered [OF assms(1-3)] internalError_def)

lemma getFnHandler_mock:
  "getFnHandler mockDispatcher \<lparr>req_ID = i, req_Method = ''mock_err'', req_Params = p\<rparr>
     = Inr (mockService, mock_err)"
  "getFnHandler mockDispatcher \<lparr>req_ID = i, req_Method = ''mock_block'', req_Params = p\<rparr>
     = Inr (mockService, mock_block)"
  by (simp_all add: getFnHandler_def SplitN2_def mockDispatcher_def mockService_def)

theorem handler_error_internal_witness:
  "handleReq mockDispatcher \<lparr>req_ID = ''1'', req_Method = ''mock_err'', req_Params = Some (JArray [])\<rparr> []
     = (Some (Inl \<lparr>Code = - 32603, Message = ''internal error''\<rparr>),
        [LogRequest ''mock_err'' ''1'', LogDispatchError ''mock_err'' (Errorf ''err'' [])])"
  using handler_error_internal [of mockDispatcher
      "\<lparr>req_ID = ''1'', req_Method = ''mock_err'', req_Params = Some (JArray [])\<rparr>"
      mockService mock_err "[]" None "Errorf ''err'' []" "[]"]
  by (simp add: getFnHandler_mock) (simp add: mock_err_def json_Unmarshal_inputs_def)

text \<open>
  Claim C5 (amended). A request for a registered method is rejected with code -32602
  and the message "invalid arguments to <method>" exactly when its \<open>params\<close> are absent or
  not JSON, or are neither an array nor \<open>null\<close>, or are an array with an element, at a
  position below the number of parameters, that fails to decode into the type of that
  parameter. The number of elements is not checked: parameters beyond the end of the
  array keep their zero value and elements beyond the last parameter are ignored.
\<close>

theorem invalid_arguments_iff:
  assumes "getFnHandler d req = Inr (service, fd)"
    and "reqt fd \<noteq> []" and "inNum fd = length (reqt fd)"
  shows "fst (handleReq d req logger) =
           Some (Inl \<lparr>Code = - 32602, Message = ''invalid arguments to '' @ req_Method req\<rparr>)
     \<longleftrightarrow> (case req_Params req of
            None \<Rightarrow> True
          | Some JNull \<Rightarrow> False
          | Some (JArray elems) \<Rightarrow>
              (\<exists>i. i < length elems \<and> i < length (tl (reqt fd))
                 \<and> decode (tl (reqt fd) ! i) (elems ! i) = None)
          | Some _ \<Rightarrow> True)"
proof -
  have rejected: "fst (handleReq d req logger) = Some (Inl (invalidArguments (req_Method req)))
      \<longleftrightarrow> json_Unmarshal_inputs (tl (reqt fd)) (req_Params req) = None"
    using error_objects_differ [of "req_Method req"]
    by (auto simp: handleReq_registered [OF assms] split: option.splits prod.splits sum.splits)
  have "json_Unmarshal_inputs (tl (reqt fd)) (req_Params req) = None
      \<longleftrightarrow> (case req_Params req of
            None \<Rightarrow> True
          | Some JNull \<Rightarrow> False
          | Some (JArray elems) \<Rightarrow>
              (\<exists>i. i < length elems \<and> i < length (tl (reqt fd))
                 \<and> decode (tl (reqt fd) ! i) (elems ! i) = None)
          | Some _ \<Rightarrow> True)"
    by (simp add: json_Unmarshal_inputs_def decode_inputs_None_iff split: option.split json.split)
  then show ?thesis
    using rejected by (simp add: invalidArguments_def)
qed

lemma decode_0xzz: "decode BlockNumber_type (JString ''0xzz'') = None"
  by (simp add: BlockNumber_type_def BlockNumber_UnmarshalJSON_def quoted_def
      stringToBlockNumber_def Trim_quote_def parseUint64orHex_def HasPrefix_def ParseUint_def
      ParseUint_step_def digit_of_def)

theorem invalid_arguments_iff_witness:
  "fst (handleReq mockDispatcher
          \<lparr>req_ID = ''1'', req_Method = ''mock_block'', req_Params = Some (JArray [JString ''0xzz''])\<rparr> [])
     = Some (Inl \<lparr>Code = - 32602, Message = ''invalid arguments to mock_block''\<rparr>)"
  using invalid_arguments_iff [of mockDispatcher
      "\<lparr>req_ID = ''1'', req_Method = ''mock_block'', req_Params = Some (JArray [JString ''0xzz''])\<rparr>"
      mockService mock_block "[]"]
  by (simp add: getFnHandler_mock) (simp add: mock_block_def decode_0xzz)

lemma decode_0x10: "decode BlockNumber_type (JString ''0x10'') = Some (VBlockNumber 16)"
  by (simp add: BlockNumber_type_def BlockNumber_UnmarshalJSON_def quoted_def
      stringToBlockNumber_def Trim_quote_def parseUint64orHex_def HasPrefix_def ParseUint_def
      ParseUint_step_def digit_of_def maxUint64_def)

lemma Marshal_0: "argUint64_MarshalText 0 = ''0x0''" "argUint64_MarshalText 16 = ''0x10''"
  by (simp_all add: argUint64_MarshalText_def FormatUint16_small FormatUint16_large hextable_def)

lemma mock_block_registered:
  "reqt mock_block \<noteq> []" "inNum mock_block = length (reqt mock_block)"
  "tl (reqt mock_block) = [BlockNumber_type]"
  "fv mock_block [s, VBlockNumber n] = (Some (VUint64 n), None)"
  by (simp_all add: mock_block_def)

lemma mock_Marshal:
  "json_Marshal mockDispatcher (VUint64 n) = Inr (quoted (argUint64_MarshalText n))"
  "json_MarshalResponse mockDispatcher r = Inr (resp_Result r)"
  "sv mockService = VService"
  by (simp_all add: mockDispatcher_def mockService_def)

text \<open>
  The claim as stated fails: the method \<open>mock_block\<close> has one parameter, and both the
  empty array and an array of two elements are accepted.
\<close>

theorem wrong_arity_counterexample:
  "length (tl (reqt mock_block)) = 1
   \<and> fst (handleReq mockDispatcher
            \<lparr>req_ID = ''1'', req_Method = ''mock_block'', req_Params = Some (JArray [])\<rparr> [])
       = Some (Inr (quoted ''0x0''))
   \<and> fst (handleReq mockDispatcher
            \<lparr>req_ID = ''1'', req_Method = ''mock_block'',
             req_Params = Some (JArray [JString ''0x10'', JString ''0x10''])\<rparr> [])
       = Some (Inr (quoted ''0x10''))"
proof -
  have none: "json_Unmarshal_inputs [BlockNumber_type] (Some (JArray [])) = Some [VBlockNumber 0]"
    by (simp add: json_Unmarshal_inputs_def BlockNumber_type_def)
  have two: "json_Unmarshal_inputs [BlockNumber_type]
      (Some (JArray [JString ''0x10'', JString ''0x10''])) = Some [VBlockNumber 16]"
    by (simp add: json_Unmarshal_inputs_def decode_0x10)
  show ?thesis
    by (simp add: handleReq_registered [OF getFnHandler_mock(2) mock_block_registered(1,2)]
        mock_block_registered none two mock_Marshal Marshal_0)
qed

section \<open>Properties of the filter manager\<close>

text \<open>
  Claim C9. \<open>GetFilterChanges\<close> on the identifier of a subscription-mode filter, as
  \<open>NewBlockFilter\<close> and \<open>NewLogFilter\<close> install it for a WebSocket writer, returns the error
  "filter does not exist" and changes nothing; a poll that succeeds was on a polling-mode
  filter, returns its buffer, and leaves that filter with an empty buffer and the
  current time as its stamp.
\<close>

theorem GetFilterChanges_modes:
  "(filters m fid = Some f \<and> flt_mode f = Subscription w \<longrightarrow>
      GetFilterChanges m fid now = (Inl errFilterDoesNotExists, m))
   \<and> GetFilterChanges (snd (NewBlockFilter m (Some w) fid t)) (fst (NewBlockFilter m (Some w) fid t)) now
       = (Inl (Errorf ''filter does not exist'' []), snd (NewBlockFilter m (Some w) fid t))
   \<and> GetFilterChanges (snd (NewLogFilter m lf (Some w) fid t)) (fst (NewLogFilter m lf (Some w) fid t)) now
       = (Inl (Errorf ''filter does not exist'' []), snd (NewLogFilter m lf (Some w) fid t))
   \<and> (fst (GetFilterChanges m fid now) = Inr items \<longrightarrow>
        (\<exists>g. filters m fid = Some g \<and> flt_mode g = Polling items
           \<and> filters (snd (GetFilterChanges m fid now)) fid
               = Some (g\<lparr>flt_mode := Polling [], flt_timestamp := now\<rparr>)))"
  by (auto simp: GetFilterChanges_def NewBlockFilter_def NewLogFilter_def addFilter_def
      errFilterDoesNotExists_def split: option.splits filterMode.splits if_splits)

theorem GetFilterChanges_modes_witness:
  "GetFilterChanges (snd (NewBlockFilter emptyManager (Some 1) ''a'' 0)) ''a'' 5
     = (Inl (Errorf ''filter does not exist'' []), snd (NewBlockFilter emptyManager (Some 1) ''a'' 0))
   \<and> fst (GetFilterChanges (snd (NewBlockFilter emptyManager None ''a'' 0)) ''a'' 5) = Inr []
   \<and> map_option flt_timestamp
        (filters (snd (GetFilterChanges (snd (NewBlockFilter emptyManager None ''a'' 0)) ''a'' 5)) ''a'')
       = Some 5"
  using GetFilterChanges_modes [where m = emptyManager and fid = "''a''" and w = 1 and t = 0
        and now = 5]
    GetFilterChanges_modes [where m = "snd (NewBlockFilter emptyManager None ''a'' 0)"
        and fid = "''a''" and now = 5 and items = "[]"]
  by (auto simp: GetFilterChanges_def NewBlockFilter_def addFilter_def emptyManager_def)

end
